theory Spec2Isabelle
  imports Complex_Main
begin

section \<open>Fleet\_Map: station selection, movement planning and navigation sessions\<close>

text \<open>
  A shallow embedding of the route logic of the Fleet\_Map backend:
  \<^item> \<open>selectEvenlySpacedStations\<close>, \<open>findNearestPointOnRoute\<close> and
    \<open>calculateDistance\<close> of \<^verbatim>\<open>RouteChargingLogic\<close>;
  \<^item> \<open>interpolateCoordinates\<close> and \<open>processRouteForMovement\<close> of
    \<^verbatim>\<open>RouteLogic\<close>;
  \<^item> the navigation handlers of \<^verbatim>\<open>server.js\<close> over the table
    \<open>activeNavigations\<close>.

  JavaScript numbers are modelled as \<open>real\<close> where they are measurements and as
  \<open>nat\<close>/\<open>int\<close> where they are counters or array indices; the places where the
  source would produce \<open>NaN\<close>, \<open>Infinity\<close> or \<open>undefined\<close> are written out as
  branches of the model.
\<close>

subsection \<open>Even-spacing selection\<close>

text \<open>
  \<^verbatim>\<open>
  function selectEvenlySpacedStations(stations, maxStations) {
    if (stations.length <= maxStations) { return stations; }
    const selected = [];
    const totalStations = stations.length;
    const spacing = Math.floor(totalStations / maxStations);
    for (let i = 0; i < maxStations; i++) {
      const index = Math.min(i * spacing, totalStations - 1);
      selected.push(stations[index]);
    }
    return selected;
  }
  \<close>
  The \<open>for\<close> loop is the recursive function \<open>select_loop\<close>, with the loop counter and
  the array \<open>selected\<close> as arguments. \<open>maxStations\<close> is a count, a \<open>nat\<close>. With
  \<open>maxStations = 0\<close> the source computes \<open>spacing = Infinity\<close> and never enters the loop;
  the model computes \<open>spacing = 0\<close> and never enters the loop either. The loop is only
  reached with \<open>0 < length stations\<close>, so \<open>totalStations - 1\<close> never truncates.
\<close>

function select_loop :: "'a list \<Rightarrow> nat \<Rightarrow> nat \<Rightarrow> nat \<Rightarrow> 'a list \<Rightarrow> 'a list" where
  "select_loop stations maxStations spacing i selected =
     (if i < maxStations
      then select_loop stations maxStations spacing (Suc i)
             (selected @ [stations ! min (i * spacing) (length stations - 1)])
      else selected)"
  by pat_completeness auto
termination
  by (relation "measure (\<lambda>(stations, maxStations, spacing, i, selected). maxStations - i)") auto

declare select_loop.simps [simp del]

definition selectEvenlySpacedStations :: "'a list \<Rightarrow> nat \<Rightarrow> 'a list" where
  "selectEvenlySpacedStations stations maxStations =
     (if length stations \<le> maxStations then stations
      else select_loop stations maxStations (length stations div maxStations) 0 [])"

subsection \<open>Movement planning\<close>

text \<open>
  A coordinate is the array \<open>[lng, lat]\<close>, here the pair \<open>(lng, lat)\<close>. A read
  \<open>xs[i]\<close> outside the array gives \<open>undefined\<close>, here \<open>None\<close>; reading a component
  of \<open>undefined\<close> throws a \<open>TypeError\<close>.
\<close>

type_synonym point = "real \<times> real"

datatype js_error = TypeError

definition js_index :: "'a list \<Rightarrow> int \<Rightarrow> 'a option" where
  "js_index xs i = (if 0 \<le> i \<and> i < int (length xs) then Some (xs ! nat i) else None)"

text \<open>
  \<^verbatim>\<open>
  function interpolateCoordinates(start, end, progress) {
    const lat = start[1] + (end[1] - start[1]) * progress;
    const lng = start[0] + (end[0] - start[0]) * progress;
    return [lng, lat];
  }
  \<close>
\<close>

definition interpolateCoordinates :: "point \<Rightarrow> point \<Rightarrow> real \<Rightarrow> point" where
  "interpolateCoordinates start finish progress =
     (let lat = snd start + (snd finish - snd start) * progress;
          lng = fst start + (fst finish - fst start) * progress
      in (lng, lat))"

text \<open>
  \<^verbatim>\<open>
  function processRouteForMovement(routeData) {
    const movementPoints = [];
    const routeCoordinates = routeData.features[0].geometry.coordinates;
    const steps = routeData.features[0].properties.segments[0].steps;
    const totalDurationSeconds = Math.ceil(routeData.features[0].properties.summary.duration);
    const totalPoints = Math.max(totalDurationSeconds, routeCoordinates.length);
    for (let i = 0; i < totalPoints; i++) {
      const progress = i / (totalPoints - 1);
      const coordIndex = Math.floor(progress * (routeCoordinates.length - 1));
      const nextCoordIndex = Math.min(coordIndex + 1, routeCoordinates.length - 1);
      if (coordIndex === nextCoordIndex) {
        movementPoints.push(routeCoordinates[coordIndex]);
      } else {
        const localProgress = (progress * (routeCoordinates.length - 1)) - coordIndex;
        const interpolatedPoint = interpolateCoordinates(
          routeCoordinates[coordIndex], routeCoordinates[nextCoordIndex], localProgress);
        movementPoints.push(interpolatedPoint);
      }
    }
    return movementPoints;
  }
  \<close>
  The model takes the two fields the function reads, the coordinate array and the
  duration, as its arguments. \<open>movementPoint\<close> is one pass through the loop body: the
  value pushed (\<open>None\<close> for \<open>undefined\<close>) or the exception thrown. With
  \<open>totalPoints = 1\<close> the only pass has \<open>i = 0\<close> and \<open>progress = 0 / 0 = NaN\<close>: both
  indices are \<open>NaN\<close>, the comparison \<open>NaN === NaN\<close> is false, \<open>routeCoordinates[NaN]\<close>
  is \<open>undefined\<close> and \<open>interpolateCoordinates\<close> throws. In every other pass
  \<open>totalPoints - 1\<close> is not zero and the arithmetic is that of the reals.
\<close>

definition movementPoint :: "point list \<Rightarrow> int \<Rightarrow> int \<Rightarrow> js_error + point option" where
  "movementPoint routeCoordinates totalPoints i =
     (if totalPoints = 1 then Inl TypeError
      else
        let progress = real_of_int i / real_of_int (totalPoints - 1);
            coordIndex = \<lfloor>progress * real_of_int (int (length routeCoordinates) - 1)\<rfloor>;
            nextCoordIndex = min (coordIndex + 1) (int (length routeCoordinates) - 1)
        in if coordIndex = nextCoordIndex
           then Inr (js_index routeCoordinates coordIndex)
           else
             let localProgress =
                   progress * real_of_int (int (length routeCoordinates) - 1) - real_of_int coordIndex
             in case (js_index routeCoordinates coordIndex,
                      js_index routeCoordinates nextCoordIndex) of
                  (Some start, Some finish) \<Rightarrow>
                    Inr (Some (interpolateCoordinates start finish localProgress))
                | _ \<Rightarrow> Inl TypeError)"

function movement_loop ::
  "point list \<Rightarrow> int \<Rightarrow> int \<Rightarrow> point option list \<Rightarrow> js_error + point option list" where
  "movement_loop routeCoordinates totalPoints i movementPoints =
     (if i < totalPoints
      then case movementPoint routeCoordinates totalPoints i of
             Inl e \<Rightarrow> Inl e
           | Inr p \<Rightarrow> movement_loop routeCoordinates totalPoints (i + 1) (movementPoints @ [p])
      else Inr movementPoints)"
  by pat_completeness auto
termination
  by (relation "measure (\<lambda>(routeCoordinates, totalPoints, i, movementPoints). nat (totalPoints - i))")
     auto

declare movement_loop.simps [simp del]

definition processRouteForMovement :: "point list \<Rightarrow> real \<Rightarrow> js_error + point option list" where
  "processRouteForMovement routeCoordinates duration =
     (let totalDurationSeconds = \<lceil>duration\<rceil>;
          totalPoints = max totalDurationSeconds (int (length routeCoordinates))
      in movement_loop routeCoordinates totalPoints 0 [])"

subsection \<open>Stations near a route\<close>

text \<open>
  \<open>Math.round\<close> rounds half up; \<open>Math.atan2\<close> is the angle of the point \<open>(x, y)\<close>.
\<close>

definition js_round :: "real \<Rightarrow> real" where
  "js_round x = real_of_int \<lfloor>x + 1 / 2\<rfloor>"

definition atan2 :: "real \<Rightarrow> real \<Rightarrow> real" where
  "atan2 y x =
     (if 0 < x then arctan (y / x)
      else if x < 0 then (if 0 \<le> y then arctan (y / x) + pi else arctan (y / x) - pi)
      else if 0 < y then pi / 2
      else if y < 0 then - (pi / 2)
      else 0)"

text \<open>
  \<^verbatim>\<open>
  function calculateDistance(coord1, coord2) {
    const R = 6371; // Earth's radius in kilometers
    const lat1 = coord1[1] * Math.PI / 180;
    const lat2 = coord2[1] * Math.PI / 180;
    const deltaLat = (coord2[1] - coord1[1]) * Math.PI / 180;
    const deltaLng = (coord2[0] - coord1[0]) * Math.PI / 180;
    const a = Math.sin(deltaLat / 2) * Math.sin(deltaLat / 2) +
      Math.cos(lat1) * Math.cos(lat2) *
      Math.sin(deltaLng / 2) * Math.sin(deltaLng / 2);
    const c = 2 * Math.atan2(Math.sqrt(a), Math.sqrt(1 - a));
    return R * c;
  }
  \<close>
  The arithmetic is that of the reals. For latitudes between -90 and 90 degrees \<open>a\<close>
  lies between 0 and 1 and both square roots exist.
\<close>

definition calculateDistance :: "point \<Rightarrow> point \<Rightarrow> real" where
  "calculateDistance coord1 coord2 =
     (let R = 6371;
          lat1 = snd coord1 * pi / 180;
          lat2 = snd coord2 * pi / 180;
          deltaLat = (snd coord2 - snd coord1) * pi / 180;
          deltaLng = (fst coord2 - fst coord1) * pi / 180;
          a = sin (deltaLat / 2) * sin (deltaLat / 2) +
              cos lat1 * cos lat2 * sin (deltaLng / 2) * sin (deltaLng / 2);
          c = 2 * atan2 (sqrt a) (sqrt (1 - a))
      in R * c)"

text \<open>
  A document of the \<open>ChargingStation\<close> collection, reduced to the fields the locator
  reads, the result of \<open>findNearestPointOnRoute\<close>, and a station with its route
  information as the locator returns it. In \<open>distanceKm\<close> the value \<open>None\<close> stands for
  \<open>Infinity\<close>, which the function returns for an empty route.
\<close>

record station =
  stationId :: string
  location_coordinates :: point

record route_position =
  position_index :: nat
  position_coordinates :: "point option"
  distanceKm :: "real option"

record station_match =
  matched :: station
  routePosition :: route_position
  distanceFromRouteKm :: real

text \<open>
  \<^verbatim>\<open>
  function findNearestPointOnRoute(stationCoords, routeCoordinates) {
    let minDistance = Infinity;
    let nearestIndex = 0;
    let nearestPoint = routeCoordinates[0];
    for (let i = 0; i < routeCoordinates.length; i++) {
      const distance = calculateDistance(stationCoords, routeCoordinates[i]);
      if (distance < minDistance) {
        minDistance = distance;
        nearestIndex = i;
        nearestPoint = routeCoordinates[i];
      }
    }
    return { index: nearestIndex, coordinates: nearestPoint,
             distanceKm: Math.round(minDistance * 10) / 10 };
  }
  \<close>
  \<open>nearest_loop\<close> runs the loop over the coordinates from index \<open>i\<close> on.
\<close>

fun nearest_loop ::
  "point \<Rightarrow> point list \<Rightarrow> nat \<Rightarrow> real option \<Rightarrow> nat \<Rightarrow> point option \<Rightarrow>
   real option \<times> nat \<times> point option" where
  "nearest_loop stationCoords [] i minDistance nearestIndex nearestPoint =
     (minDistance, nearestIndex, nearestPoint)"
| "nearest_loop stationCoords (p # rest) i minDistance nearestIndex nearestPoint =
     (let distance = calculateDistance stationCoords p
      in if (case minDistance of None \<Rightarrow> True | Some m \<Rightarrow> distance < m)
         then nearest_loop stationCoords rest (Suc i) (Some distance) i (Some p)
         else nearest_loop stationCoords rest (Suc i) minDistance nearestIndex nearestPoint)"

definition findNearestPointOnRoute :: "point \<Rightarrow> point list \<Rightarrow> route_position" where
  "findNearestPointOnRoute stationCoords routeCoordinates =
     (case nearest_loop stationCoords routeCoordinates 0 None 0
             (case routeCoordinates of [] \<Rightarrow> None | p # rest \<Rightarrow> Some p) of
        (minDistance, nearestIndex, nearestPoint) \<Rightarrow>
          \<lparr>position_index = nearestIndex, position_coordinates = nearestPoint,
           distanceKm = map_option (\<lambda>m. js_round (m * 10) / 10) minDistance\<rparr>)"

text \<open>
  The database is a collaborator of the locator. \<open>find_in_box\<close> answers the query of
  \<open>findStationsWithinRouteBuffer\<close> for operational stations inside a box (a bound
  \<open>None\<close> is infinite), \<open>geoNear\<close> answers the \<open>$geoNear\<close> aggregation of
  \<open>findStationsNearRoutePoints\<close> for operational stations within a distance in
  metres of a point, each with its \<open>distanceFromPoint\<close>. An answer \<open>None\<close> is a
  rejected query.
\<close>

record station_store =
  find_in_box ::
    "real option \<Rightarrow> real option \<Rightarrow> real option \<Rightarrow> real option \<Rightarrow> station list option"
  geoNear :: "point \<Rightarrow> real \<Rightarrow> (station \<times> real) list option"

definition calculateRouteBounds ::
  "point list \<Rightarrow> real option \<times> real option \<times> real option \<times> real option" where
  "calculateRouteBounds routeCoordinates =
     foldl (\<lambda>(minLng, maxLng, minLat, maxLat) (lng, lat).
              (Some (case minLng of None \<Rightarrow> lng | Some m \<Rightarrow> min m lng),
               Some (case maxLng of None \<Rightarrow> lng | Some m \<Rightarrow> max m lng),
               Some (case minLat of None \<Rightarrow> lat | Some m \<Rightarrow> min m lat),
               Some (case maxLat of None \<Rightarrow> lat | Some m \<Rightarrow> max m lat)))
       (None, None, None, None) routeCoordinates"

text \<open>
  \<open>findStationsWithinRouteBuffer\<close> (the primary strategy): the candidates of the
  box query, limited to \<open>maxStations * 5\<close>, are projected on the route; those within
  \<open>maxDistance\<close> are kept with \<open>distanceFromRouteKm = routePosition.distanceKm\<close>,
  sorted by route index and thinned out. An exception is caught and gives \<open>[]\<close>.
\<close>

definition station_within :: "point list \<Rightarrow> real \<Rightarrow> station \<Rightarrow> station_match option" where
  "station_within routeCoordinates maxDistance station =
     (let routePos = findNearestPointOnRoute (location_coordinates station) routeCoordinates
      in case distanceKm routePos of
           None \<Rightarrow> None
         | Some d \<Rightarrow>
             if d \<le> maxDistance
             then Some \<lparr>matched = station, routePosition = routePos, distanceFromRouteKm = d\<rparr>
             else None)"

definition findStationsWithinRouteBuffer ::
  "station_store \<Rightarrow> point list \<Rightarrow> real \<Rightarrow> nat \<Rightarrow> station_match list" where
  "findStationsWithinRouteBuffer store routeCoordinates maxDistance maxStations =
     (case calculateRouteBounds routeCoordinates of
        (minLng, maxLng, minLat, maxLat) \<Rightarrow>
          let buffer = maxDistance / 111
          in case find_in_box store
                    (map_option (\<lambda>m. m - buffer) minLng) (map_option (\<lambda>m. m + buffer) maxLng)
                    (map_option (\<lambda>m. m - buffer) minLat) (map_option (\<lambda>m. m + buffer) maxLat) of
               None \<Rightarrow> []
             | Some found \<Rightarrow>
                 let nearbyStations = take (maxStations * 5) found
                 in if nearbyStations = [] then []
                    else
                      let stationsWithDistance =
                            List.map_filter (station_within routeCoordinates maxDistance)
                              nearbyStations
                      in selectEvenlySpacedStations
                           (sort_key (\<lambda>m. position_index (routePosition m)) stationsWithDistance)
                           maxStations)"

text \<open>
  \<open>findStationsNearRoutePoints\<close> (the fallback strategy): every
  \<open>sampleInterval\<close>-th coordinate is a sample point; the first ten stations of each
  \<open>$geoNear\<close> answer are added to the map \<open>allStations\<close> (here a list of pairs in
  insertion order) unless their id is already a key, with
  \<open>distanceFromRouteKm = Math.round((station.distanceFromPoint / 1000) * 10) / 10\<close>.
  A rejected \<open>$geoNear\<close> query is caught and the sample point skipped.
\<close>

definition add_station ::
  "point list \<Rightarrow> (string \<times> station_match) list \<Rightarrow> station \<times> real \<Rightarrow>
   (string \<times> station_match) list" where
  "add_station routeCoordinates allStations found =
     (case found of
        (station, distanceFromPoint) \<Rightarrow>
          if stationId station \<in> fst ` set allStations then allStations
          else allStations @
            [(stationId station,
              \<lparr>matched = station,
               routePosition =
                 findNearestPointOnRoute (location_coordinates station) routeCoordinates,
               distanceFromRouteKm = js_round (distanceFromPoint / 1000 * 10) / 10\<rparr>)])"

definition findStationsNearRoutePoints ::
  "station_store \<Rightarrow> point list \<Rightarrow> real \<Rightarrow> nat \<Rightarrow> station_match list" where
  "findStationsNearRoutePoints store routeCoordinates maxDistance maxStations =
     (let sampleInterval = max 1 (length routeCoordinates div 10);
          samplePoints =
            map snd (filter (\<lambda>(index, p). index mod sampleInterval = 0)
                       (enumerate 0 routeCoordinates));
          allStations =
            foldl (\<lambda>all point.
                     case geoNear store point (maxDistance * 1000) of
                       None \<Rightarrow> all
                     | Some nearbyStations \<Rightarrow>
                         foldl (add_station routeCoordinates) all (take 10 nearbyStations))
              [] samplePoints;
          stationsArray = map snd allStations
      in selectEvenlySpacedStations
           (sort_key (\<lambda>m. position_index (routePosition m)) stationsArray) maxStations)"

text \<open>\<open>findChargingStationsAlongRoute\<close>: the primary strategy, then the fallback.\<close>

definition findChargingStationsAlongRoute ::
  "station_store \<Rightarrow> point list \<Rightarrow> real \<Rightarrow> nat \<Rightarrow> station_match list" where
  "findChargingStationsAlongRoute store routeCoordinates maxDistance maxStations =
     (if length routeCoordinates < 2 then []
      else
        let stations = findStationsWithinRouteBuffer store routeCoordinates maxDistance maxStations
        in if stations \<noteq> [] then stations
           else findStationsNearRoutePoints store routeCoordinates maxDistance maxStations)"

text \<open>
  The loop invariant of \<open>findNearestPointOnRoute\<close>: after the coordinates \<open>pre\<close>, the
  minimum is infinite only if \<open>pre\<close> is empty, and otherwise it is the distance to
  \<open>pre ! nearestIndex\<close>, no coordinate of \<open>pre\<close> is nearer and every earlier one is
  farther.
\<close>

definition nearest_so_far ::
  "point \<Rightarrow> point list \<Rightarrow> real option \<times> nat \<times> point option \<Rightarrow> bool" where
  "nearest_so_far st pre acc \<longleftrightarrow>
     (case acc of
        (None, idx, pt) \<Rightarrow> pre = []
      | (Some d, idx, pt) \<Rightarrow>
          idx < length pre \<and> d = calculateDistance st (pre ! idx) \<and> pt = Some (pre ! idx) \<and>
          (\<forall>j<length pre. d \<le> calculateDistance st (pre ! j)) \<and>
          (\<forall>j<idx. d < calculateDistance st (pre ! j)))"

subsection \<open>A station database at latitude 60\<close>

text \<open>
  The concrete database at which the locator is evaluated below. It holds one
  operational station at \<open>[0.07, 60]\<close>. The box query is answered by comparing the
  coordinates with the bounds; the \<open>$geoNear\<close> query is answered from the distances of
  the station to the two route points \<open>[0, 60]\<close> and \<open>[0.02, 60]\<close>, 3896 and 2783
  metres.
\<close>

definition demo_station :: station where
  "demo_station = \<lparr>stationId = ''ocm_1'', location_coordinates = (7 / 100, 60)\<rparr>"

definition at_least :: "real option \<Rightarrow> real \<Rightarrow> bool" where
  "at_least bound x = (case bound of None \<Rightarrow> False | Some b \<Rightarrow> b \<le> x)"

definition at_most :: "real option \<Rightarrow> real \<Rightarrow> bool" where
  "at_most bound x = (case bound of None \<Rightarrow> False | Some b \<Rightarrow> x \<le> b)"

definition demo_station_store :: station_store where
  "demo_station_store =
     \<lparr>find_in_box = (\<lambda>minLng maxLng minLat maxLat.
        Some (filter (\<lambda>s. at_least minLng (fst (location_coordinates s)) \<and>
                           at_most maxLng (fst (location_coordinates s)) \<and>
                           at_least minLat (snd (location_coordinates s)) \<and>
                           at_most maxLat (snd (location_coordinates s)))
                [demo_station])),
      geoNear = (\<lambda>point maxDistance.
        Some (filter (\<lambda>(s, distanceFromPoint). distanceFromPoint \<le> maxDistance)
                (if point = (0, 60) then [(demo_station, 3896)]
                 else if point = (2 / 100, 60) then [(demo_station, 2783)]
                 else [])))\<rparr>"

definition demo_route_coordinates :: "point list" where
  "demo_route_coordinates = [(0, 60), (2 / 100, 60)]"

subsection \<open>Navigation sessions: data\<close>

text \<open>
  The navigation object that \<^verbatim>\<open>/startNavigation\<close> builds (its \<open>startTime\<close>, a
  clock reading, is left out). \<open>interval\<close> is the handle returned by \<open>setInterval\<close>,
  or \<open>null\<close>. Entries of \<open>movementPoints\<close> and \<open>currentPosition\<close> may be
  \<open>undefined\<close> (\<open>None\<close>).
\<close>

type_synonym user_id = string
type_synonym route_id = string
type_synonym interval_id = nat
type_synonym nav_ref = nat

datatype nav_status = Active | Paused

record navigation =
  userId :: user_id
  routeId :: route_id
  routeName :: string
  movementPoints :: "point option list"
  currentIndex :: nat
  currentPosition :: "point option"
  status :: nav_status
  interval :: "interval_id option"

text \<open>
  A document of the \<open>Route\<close> collection, reduced to the fields the navigation
  handlers read and write.
\<close>

datatype route_status = Created | Alive | Dead

record route =
  route_userId :: user_id
  route_routeName :: string
  route_coordinates :: "point list"
  route_duration :: real
  route_status :: route_status
  route_isActive :: bool

text \<open>
  What \<open>io.to(room).emit(event, payload)\<close> sends: the room is a string (a user id or
  \<open>'fleet-manager'\<close>), the constructor is the event name, its arguments are the
  payload's fields in the order of the source (timestamps left out).
\<close>

datatype payload =
    NavigationCompleted route_id string
  | RouteCompleted user_id route_id string
  | LocationUpdate route_id string "point option" real nat nat int
  | LiveLocationUpdate user_id route_id string "point option" real
  | NavigationStopped route_id string
  | RouteStopped user_id route_id string

definition fleet_manager :: string where
  "fleet_manager = ''fleet-manager''"

text \<open>
  The callback given to \<open>setInterval\<close> is a closure. The one of
  \<^verbatim>\<open>/startNavigation\<close> captures \<open>userId\<close>, \<open>routeId\<close> and the navigation object, the
  one of \<^verbatim>\<open>/resumeNavigation\<close> captures \<open>userId\<close> and the navigation object. The
  navigation object is shared between the closure and the table, so it lives in a heap
  and both hold its address. Addresses from \<open>next_ref\<close> on are not yet allocated.
\<close>

datatype tick_closure = StartTick user_id route_id nav_ref | ResumeTick user_id nav_ref

text \<open>An awaited call to the database either returns or rejects.\<close>

datatype store_call = Succeeds | Throws

text \<open>
  The handlers and the timer callbacks are \<open>async\<close> functions. Such a function runs
  until its next \<open>await\<close>, where it is suspended until the database call it waits for
  has settled; in between, other requests, timers and settled calls run. A
  \<open>continuation\<close> is a suspended function: the \<open>await\<close> it waits at and the values of
  its local variables.
  \<^item> \<open>StartFound\<close>: \<^verbatim>\<open>/startNavigation\<close> at \<open>await Route.findById\<close> (line 273);
  \<^item> \<open>StartMarked\<close>: \<^verbatim>\<open>/startNavigation\<close> at \<open>await Route.findByIdAndUpdate\<close> (line
    278), holding \<open>route\<close>;
  \<^item> \<open>StopMarked\<close>: \<^verbatim>\<open>/stopNavigation\<close> at \<open>await Route.findByIdAndUpdate\<close> (line
    443), holding \<open>navigation\<close>;
  \<^item> \<open>StartTickCompleted\<close>: the start callback at \<open>await Route.findByIdAndUpdate\<close>
    (line 302);
  \<^item> \<open>StartTickFleetUpdated\<close>: the start callback at \<open>await Fleet.findOneAndUpdate\<close>
    (line 329), holding \<open>currentPosition\<close>;
  \<^item> \<open>StartTickFleetFound\<close>: the start callback at \<open>await Fleet.findOne\<close> (line 349),
    holding \<open>currentPosition\<close>;
  \<^item> \<open>ResumeTickCompleted\<close>: the resume callback at \<open>await Route.findByIdAndUpdate\<close>
    (line 582).
\<close>

datatype continuation =
    StartFound user_id route_id
  | StartMarked user_id route_id route
  | StopMarked user_id nav_ref
  | StartTickCompleted user_id route_id nav_ref
  | StartTickFleetUpdated user_id route_id nav_ref "point option"
  | StartTickFleetFound user_id route_id nav_ref "point option"
  | ResumeTickCompleted user_id nav_ref

datatype response =
    NavigationStarted route_id string nat
  | NavigationStoppedOk route_id string
  | NavigationPausedOk route_id string
  | NavigationResumedOk route_id string
  | ErrorResponse nat string

text \<open>
  How a piece of a handler or callback ends: the handler answers the request, the
  function is suspended at an \<open>await\<close>, a callback returns, or a callback ends with a
  rejected promise that nothing handles, which ends the server process.
\<close>

datatype effect = Respond response | Await continuation | Finished | Unhandled

record server_state =
  activeNavigations :: "user_id \<rightharpoonup> nav_ref"
  heap :: "nav_ref \<Rightarrow> navigation"
  timers :: "interval_id \<rightharpoonup> tick_closure"
  routes :: "route_id \<rightharpoonup> route"
  fleet :: "user_id \<rightharpoonup> point option"
  emitted :: "(string \<times> payload) list"
  next_ref :: nat
  next_interval :: nat
  pending :: "continuation list"
  exited :: bool

record socket =
  socket_userId :: "user_id option"

subsection \<open>Navigation sessions: timers, store and broadcast\<close>

definition array_get :: "'a option list \<Rightarrow> nat \<Rightarrow> 'a option" where
  "array_get xs i = (if i < length xs then xs ! i else None)"

definition setInterval :: "tick_closure \<Rightarrow> server_state \<Rightarrow> interval_id \<times> server_state" where
  "setInterval callback s =
     (next_interval s,
      s\<lparr>timers := (timers s)(next_interval s \<mapsto> callback),
        next_interval := Suc (next_interval s)\<rparr>)"

definition clearInterval :: "interval_id option \<Rightarrow> server_state \<Rightarrow> server_state" where
  "clearInterval handle s =
     (case handle of None \<Rightarrow> s | Some iid \<Rightarrow> s\<lparr>timers := (timers s)(iid := None)\<rparr>)"

definition emit :: "string \<Rightarrow> payload \<Rightarrow> server_state \<Rightarrow> server_state" where
  "emit room p s = s\<lparr>emitted := emitted s @ [(room, p)]\<rparr>"

text \<open>
  \<open>Route.findByIdAndUpdate(routeId, {status, isActive})\<close> and
  \<open>Fleet.findOneAndUpdate({_id: userId}, {$set: {'location.coordinates': position}},
  {upsert: false})\<close>: both change the document when it exists and nothing otherwise.
\<close>

definition route_findByIdAndUpdate ::
  "route_id \<Rightarrow> route_status \<Rightarrow> bool \<Rightarrow> server_state \<Rightarrow> server_state" where
  "route_findByIdAndUpdate rid st act s =
     (case routes s rid of
        None \<Rightarrow> s
      | Some r \<Rightarrow> s\<lparr>routes := (routes s)(rid \<mapsto> r\<lparr>route_status := st, route_isActive := act\<rparr>)\<rparr>)"

definition fleet_findOneAndUpdate :: "user_id \<Rightarrow> point option \<Rightarrow> server_state \<Rightarrow> server_state" where
  "fleet_findOneAndUpdate uid position s =
     (case fleet s uid of
        None \<Rightarrow> s
      | Some old \<Rightarrow> s\<lparr>fleet := (fleet s)(uid \<mapsto> position)\<rparr>)"

definition progress_percent :: "navigation \<Rightarrow> real" where
  "progress_percent nav =
     real (currentIndex nav) / real (length (movementPoints nav)) * 100"

subsection \<open>Navigation sessions: the two tick callbacks\<close>

text \<open>
  The callback installed by \<^verbatim>\<open>/startNavigation\<close> (server.js, lines 297 to 408), up
  to its first \<open>await\<close>. At completion it clears the timer and deletes the table
  entry, then waits for \<open>Route.findByIdAndUpdate\<close>. Otherwise it reads
  \<open>movementPoints[currentIndex]\<close> into the local \<open>currentPosition\<close>, stores it in the
  navigation object and waits for \<open>Fleet.findOneAndUpdate\<close>.
\<close>

definition start_tick ::
  "user_id \<Rightarrow> route_id \<Rightarrow> nav_ref \<Rightarrow> server_state \<Rightarrow> server_state \<times> effect" where
  "start_tick uid rid r s =
     (let navigation = heap s r
      in if length (movementPoints navigation) \<le> currentIndex navigation then
           let s1 = clearInterval (interval navigation) s;
               s2 = s1\<lparr>activeNavigations := (activeNavigations s1)(uid := None)\<rparr>
           in (s2, Await (StartTickCompleted uid rid r))
         else
           let position = array_get (movementPoints navigation) (currentIndex navigation);
               s1 = s\<lparr>heap := (heap s)(r := navigation\<lparr>currentPosition := position\<rparr>)\<rparr>
           in (s1, Await (StartTickFleetUpdated uid rid r position)))"

text \<open>
  The statements after the \<open>Fleet\<close> calls of the start callback (lines 355 to 377 in
  the \<open>try\<close> block and, word for word, lines 383 to 405 in the \<open>catch\<close> block):
  progress and remaining points are computed from the navigation object as it is
  now, the position is the local \<open>currentPosition\<close> read before the \<open>await\<close>.
\<close>

definition start_tick_publish ::
  "user_id \<Rightarrow> route_id \<Rightarrow> nav_ref \<Rightarrow> point option \<Rightarrow> server_state \<Rightarrow> server_state" where
  "start_tick_publish uid rid r position s =
     (let navigation = heap s r;
          progress = progress_percent navigation;
          remainingPoints =
            int (length (movementPoints navigation)) - int (currentIndex navigation);
          s1 = emit uid
                 (LocationUpdate rid (routeName navigation) position progress
                    (currentIndex navigation) (length (movementPoints navigation))
                    remainingPoints) s;
          s2 = emit fleet_manager
                 (LiveLocationUpdate uid rid (routeName navigation) position progress) s1
      in s2\<lparr>heap := (heap s2)(r := navigation\<lparr>currentIndex := Suc (currentIndex navigation)\<rparr>)\<rparr>)"

text \<open>
  The callback installed by \<^verbatim>\<open>/resumeNavigation\<close> (server.js, lines 575 to 634). It
  reads the route id from the navigation object. Its completion branch waits for
  \<open>Route.findByIdAndUpdate\<close>; its other branch has no \<open>await\<close> and makes no call to
  the \<open>Fleet\<close> collection.
\<close>

definition resume_tick ::
  "user_id \<Rightarrow> nav_ref \<Rightarrow> server_state \<Rightarrow> server_state \<times> effect" where
  "resume_tick uid r s =
     (let navigation = heap s r
      in if length (movementPoints navigation) \<le> currentIndex navigation then
           let s1 = clearInterval (interval navigation) s;
               s2 = s1\<lparr>activeNavigations := (activeNavigations s1)(uid := None)\<rparr>
           in (s2, Await (ResumeTickCompleted uid r))
         else
           let position = array_get (movementPoints navigation) (currentIndex navigation);
               nav1 = navigation\<lparr>currentPosition := position\<rparr>;
               s1 = s\<lparr>heap := (heap s)(r := nav1)\<rparr>;
               progress = progress_percent nav1;
               remainingPoints = int (length (movementPoints nav1)) - int (currentIndex nav1);
               s3 = emit uid
                      (LocationUpdate (routeId nav1) (routeName nav1) position progress
                         (currentIndex nav1) (length (movementPoints nav1)) remainingPoints) s1;
               s4 = emit fleet_manager
                      (LiveLocationUpdate uid (routeId nav1) (routeName nav1) position progress) s3
           in (s4\<lparr>heap := (heap s4)(r := nav1\<lparr>currentIndex := Suc (currentIndex nav1)\<rparr>)\<rparr>,
               Finished))"

text \<open>A timer that fires runs its callback; a cleared timer never fires.\<close>

definition fire :: "interval_id \<Rightarrow> server_state \<Rightarrow> server_state \<times> effect" where
  "fire iid s =
     (case timers s iid of
        None \<Rightarrow> (s, Finished)
      | Some (StartTick uid rid r) \<Rightarrow> start_tick uid rid r s
      | Some (ResumeTick uid r) \<Rightarrow> resume_tick uid r s)"

subsection \<open>Navigation sessions: the request handlers\<close>

text \<open>
  \<^verbatim>\<open>/startNavigation\<close> (server.js, lines 265 to 424), up to its first \<open>await\<close>: the
  conflict check, then the wait for \<open>Route.findById\<close>.
\<close>

definition startNavigation :: "user_id \<Rightarrow> route_id \<Rightarrow> server_state \<Rightarrow> server_state \<times> effect" where
  "startNavigation uid rid s =
     (if activeNavigations s uid \<noteq> None then
        (s, Respond (ErrorResponse 400
              ''User already has an active navigation. Stop current navigation first.''))
      else (s, Await (StartFound uid rid)))"

text \<open>
  \<^verbatim>\<open>/stopNavigation\<close> (server.js, lines 429 to 470), up to its \<open>await\<close>: the timer
  is cleared and the table entry deleted before the route is updated.
\<close>

definition stopNavigation :: "user_id \<Rightarrow> server_state \<Rightarrow> server_state \<times> effect" where
  "stopNavigation uid s =
     (case activeNavigations s uid of
        None \<Rightarrow> (s, Respond (ErrorResponse 404 ''No active navigation found''))
      | Some r \<Rightarrow>
          let navigation = heap s r;
              s1 = clearInterval (interval navigation) s;
              s2 = s1\<lparr>activeNavigations := (activeNavigations s1)(uid := None)\<rparr>
          in (s2, Await (StopMarked uid r)))"

text \<open>
  \<^verbatim>\<open>/pauseNavigation\<close> (server.js, lines 536 to 561) and \<^verbatim>\<open>/resumeNavigation\<close>
  (lines 564 to 648) have no \<open>await\<close>: each runs to its answer without interruption.
\<close>

definition pauseNavigation :: "user_id \<Rightarrow> server_state \<Rightarrow> server_state \<times> response" where
  "pauseNavigation uid s =
     (case activeNavigations s uid of
        None \<Rightarrow> (s, ErrorResponse 404 ''No active navigation found'')
      | Some r \<Rightarrow>
          let navigation = heap s r
          in if interval navigation \<noteq> None then
               let s1 = clearInterval (interval navigation) s;
                   s2 = s1\<lparr>heap := (heap s1)(r := navigation\<lparr>interval := None, status := Paused\<rparr>)\<rparr>
               in (s2, NavigationPausedOk (routeId navigation) (routeName navigation))
             else (s, NavigationPausedOk (routeId navigation) (routeName navigation)))"

definition resumeNavigation :: "user_id \<Rightarrow> server_state \<Rightarrow> server_state \<times> response" where
  "resumeNavigation uid s =
     (case activeNavigations s uid of
        None \<Rightarrow> (s, ErrorResponse 404 ''No active navigation found'')
      | Some r \<Rightarrow>
          let navigation = heap s r
          in if status navigation = Paused then
               let (iid, s1) = setInterval (ResumeTick uid r) s;
                   s2 = s1\<lparr>heap := (heap s1)(r := navigation\<lparr>interval := Some iid, status := Active\<rparr>)\<rparr>
               in (s2, NavigationResumedOk (routeId navigation) (routeName navigation))
             else (s, NavigationResumedOk (routeId navigation) (routeName navigation)))"

text \<open>
  The socket handlers \<open>join-user\<close> and \<open>disconnect\<close> (server.js, lines 36 to 57).
  \<open>socket.userId\<close> is tested for truthiness, and the empty string is falsy.
\<close>

definition join_user :: "user_id \<Rightarrow> socket \<Rightarrow> socket" where
  "join_user uid sock = sock\<lparr>socket_userId := Some uid\<rparr>"

definition disconnect :: "socket \<Rightarrow> server_state \<Rightarrow> server_state" where
  "disconnect sock s =
     (case socket_userId sock of
        None \<Rightarrow> s
      | Some uid \<Rightarrow>
          if uid \<noteq> [] \<and> activeNavigations s uid \<noteq> None then
            let navigation = heap s (the (activeNavigations s uid));
                s1 = (if interval navigation \<noteq> None
                      then clearInterval (interval navigation) s else s)
            in s1\<lparr>activeNavigations := (activeNavigations s1)(uid := None)\<rparr>
          else s)"

subsection \<open>Navigation sessions: after an await\<close>

text \<open>
  \<open>settle k outcome s\<close> resumes the suspended function \<open>k\<close> when the database call it
  waits for has returned (\<open>Succeeds\<close>, and the call takes effect) or was rejected
  (\<open>Throws\<close>), up to its next \<open>await\<close> or its end.
  \<^item> In the handlers a rejection, and an exception of \<open>processRouteForMovement\<close>, is
    caught and answered with status 500.
  \<^item> In the start callback a rejection of a \<open>Fleet\<close> call is caught and the \<open>catch\<close>
    block publishes and increments; when \<open>Fleet.findOneAndUpdate\<close> returns \<open>null\<close>
    (no document) the callback waits once more, for \<open>Fleet.findOne\<close>.
  \<^item> In the completion branch of either callback nothing catches a rejection of
    \<open>Route.findByIdAndUpdate\<close>.
\<close>

definition settle :: "continuation \<Rightarrow> store_call \<Rightarrow> server_state \<Rightarrow> server_state \<times> effect" where
  "settle k outcome s =
     (case k of
        StartFound uid rid \<Rightarrow>
          (case outcome of
             Throws \<Rightarrow> (s, Respond (ErrorResponse 500 ''Failed to start navigation''))
           | Succeeds \<Rightarrow>
               (case routes s rid of
                  None \<Rightarrow> (s, Respond (ErrorResponse 404 ''Route not found or access denied''))
                | Some route \<Rightarrow>
                    if route_userId route \<noteq> uid then
                      (s, Respond (ErrorResponse 404 ''Route not found or access denied''))
                    else (s, Await (StartMarked uid rid route))))
      | StartMarked uid rid route \<Rightarrow>
          (case outcome of
             Throws \<Rightarrow> (s, Respond (ErrorResponse 500 ''Failed to start navigation''))
           | Succeeds \<Rightarrow>
               let s1 = route_findByIdAndUpdate rid Alive True s
               in case processRouteForMovement (route_coordinates route) (route_duration route) of
                    Inl e \<Rightarrow> (s1, Respond (ErrorResponse 500 ''Failed to start navigation''))
                  | Inr points \<Rightarrow>
                      let r = next_ref s1;
                          navigation =
                            \<lparr>userId = uid, routeId = rid, routeName = route_routeName route,
                             movementPoints = points, currentIndex = 0,
                             currentPosition = array_get points 0,
                             status = Active, interval = None\<rparr>;
                          s2 = s1\<lparr>heap := (heap s1)(r := navigation), next_ref := Suc r\<rparr>;
                          (iid, s3) = setInterval (StartTick uid rid r) s2;
                          s4 = s3\<lparr>heap := (heap s3)(r := navigation\<lparr>interval := Some iid\<rparr>)\<rparr>;
                          s5 = s4\<lparr>activeNavigations := (activeNavigations s4)(uid \<mapsto> r)\<rparr>
                      in (s5, Respond (NavigationStarted rid (route_routeName route)
                                         (length points))))
      | StopMarked uid r \<Rightarrow>
          (case outcome of
             Throws \<Rightarrow> (s, Respond (ErrorResponse 500 ''Failed to stop navigation''))
           | Succeeds \<Rightarrow>
               let navigation = heap s r;
                   s3 = route_findByIdAndUpdate (routeId navigation) Dead False s;
                   s4 = emit uid
                          (NavigationStopped (routeId navigation) (routeName navigation)) s3;
                   s5 = emit fleet_manager
                          (RouteStopped uid (routeId navigation) (routeName navigation)) s4
               in (s5, Respond (NavigationStoppedOk (routeId navigation) (routeName navigation))))
      | StartTickCompleted uid rid r \<Rightarrow>
          (case outcome of
             Throws \<Rightarrow> (s, Unhandled)
           | Succeeds \<Rightarrow>
               let navigation = heap s r;
                   s3 = route_findByIdAndUpdate rid Dead False s;
                   s4 = emit uid (NavigationCompleted rid (routeName navigation)) s3
               in (emit fleet_manager (RouteCompleted uid rid (routeName navigation)) s4,
                   Finished))
      | StartTickFleetUpdated uid rid r position \<Rightarrow>
          (case outcome of
             Throws \<Rightarrow> (start_tick_publish uid rid r position s, Finished)
           | Succeeds \<Rightarrow>
               (case fleet s uid of
                  None \<Rightarrow> (s, Await (StartTickFleetFound uid rid r position))
                | Some old \<Rightarrow>
                    (start_tick_publish uid rid r position
                       (fleet_findOneAndUpdate uid position s), Finished)))
      | StartTickFleetFound uid rid r position \<Rightarrow>
          (start_tick_publish uid rid r position s, Finished)
      | ResumeTickCompleted uid r \<Rightarrow>
          (case outcome of
             Throws \<Rightarrow> (s, Unhandled)
           | Succeeds \<Rightarrow>
               let navigation = heap s r;
                   s3 = route_findByIdAndUpdate (routeId navigation) Dead False s;
                   s4 = emit uid
                          (NavigationCompleted (routeId navigation) (routeName navigation)) s3
               in (emit fleet_manager
                     (RouteCompleted uid (routeId navigation) (routeName navigation)) s4,
                   Finished)))"

subsection \<open>Navigation sessions: the event loop\<close>

text \<open>
  What can happen next in the server: a request arrives, a socket disconnects, a
  timer fires, or the database call of the \<open>i\<close>-th suspended function settles. Each
  runs one piece of code to its end; \<open>spawn\<close> then files a suspended function among
  the pending ones, or marks the process as ended after an unhandled rejection. A
  process that has ended does nothing more. \<open>run\<close> lets a list of events happen in
  order.
\<close>

datatype event =
    StartRequest user_id route_id
  | StopRequest user_id
  | PauseRequest user_id
  | ResumeRequest user_id
  | Disconnect socket
  | TimerFires interval_id
  | Settles nat store_call

definition spawn :: "server_state \<times> effect \<Rightarrow> server_state" where
  "spawn result =
     (case result of
        (s, Await k) \<Rightarrow> s\<lparr>pending := pending s @ [k]\<rparr>
      | (s, Unhandled) \<Rightarrow> s\<lparr>exited := True\<rparr>
      | (s, Respond answer) \<Rightarrow> s
      | (s, Finished) \<Rightarrow> s)"

definition step :: "event \<Rightarrow> server_state \<Rightarrow> server_state" where
  "step e s =
     (if exited s then s
      else case e of
        StartRequest uid rid \<Rightarrow> spawn (startNavigation uid rid s)
      | StopRequest uid \<Rightarrow> spawn (stopNavigation uid s)
      | PauseRequest uid \<Rightarrow> fst (pauseNavigation uid s)
      | ResumeRequest uid \<Rightarrow> fst (resumeNavigation uid s)
      | Disconnect sock \<Rightarrow> disconnect sock s
      | TimerFires iid \<Rightarrow> spawn (fire iid s)
      | Settles i outcome \<Rightarrow>
          if i < length (pending s)
          then spawn (settle (pending s ! i) outcome
                        (s\<lparr>pending := take i (pending s) @ drop (Suc i) (pending s)\<rparr>))
          else s)"

definition run :: "event list \<Rightarrow> server_state \<Rightarrow> server_state" where
  "run es s = foldl (\<lambda>s e. step e s) s es"

subsection \<open>A tick that is not interrupted\<close>

text \<open>
  \<open>tick iid store s\<close>: the timer \<open>iid\<close> fires and its callback runs to its end before
  anything else happens, each database call it waits for settling at once with the
  outcome \<open>store\<close>. A callback waits at most twice.
\<close>

definition settle_now :: "store_call \<Rightarrow> server_state \<times> effect \<Rightarrow> server_state \<times> effect" where
  "settle_now store result =
     (case result of
        (s, Await k) \<Rightarrow> settle k store s
      | (s, Respond answer) \<Rightarrow> (s, Respond answer)
      | (s, Finished) \<Rightarrow> (s, Finished)
      | (s, Unhandled) \<Rightarrow> (s, Unhandled))"

definition tick :: "interval_id \<Rightarrow> store_call \<Rightarrow> server_state \<Rightarrow> server_state" where
  "tick iid store s = spawn (settle_now store (settle_now store (fire iid s)))"

subsection \<open>A small server run\<close>

text \<open>
  The concrete states at which the theorems below are instantiated: vehicle \<open>A\<close> owns
  a route of two coordinates and two seconds and has a fleet document at \<open>[5,5]\<close>;
  the server has just booted, has started the navigation of \<open>A\<close> on that route,
  has ticked through both movement points, or has paused and resumed the navigation.
\<close>

definition demo_route :: route where
  "demo_route =
     \<lparr>route_userId = ''A'', route_routeName = ''R'', route_coordinates = [(0, 0), (0, 1)],
      route_duration = 2, route_status = Created, route_isActive = False\<rparr>"

definition blank_navigation :: navigation where
  "blank_navigation =
     \<lparr>userId = [], routeId = [], routeName = [], movementPoints = [], currentIndex = 0,
      currentPosition = None, status = Paused, interval = None\<rparr>"

definition demo_boot :: server_state where
  "demo_boot =
     \<lparr>activeNavigations = Map.empty, heap = (\<lambda>r. blank_navigation), timers = Map.empty,
      routes = [''r1'' \<mapsto> demo_route], fleet = [''A'' \<mapsto> Some (5, 5)], emitted = [],
      next_ref = 0, next_interval = 0, pending = [], exited = False\<rparr>"

definition demo_started :: server_state where
  "demo_started =
     run [StartRequest ''A'' ''r1'', Settles 0 Succeeds, Settles 0 Succeeds] demo_boot"

definition demo_navigation :: navigation where
  "demo_navigation =
     \<lparr>userId = ''A'', routeId = ''r1'', routeName = ''R'',
      movementPoints = [Some (0, 0), Some (0, 1)], currentIndex = 0,
      currentPosition = Some (0, 0), status = Active, interval = Some 0\<rparr>"

definition demo_arrived :: server_state where
  "demo_arrived = tick 0 Succeeds (tick 0 Succeeds demo_started)"

definition demo_resumed :: server_state where
  "demo_resumed = fst (resumeNavigation ''A'' (fst (pauseNavigation ''A'' demo_started)))"


subsection \<open>Properties of the even-spacing selection\<close>

lemma select_loop_unfold:
  "i \<le> maxStations \<Longrightarrow>
   select_loop stations maxStations spacing i selected =
     selected @ map (\<lambda>j. stations ! min (j * spacing) (length stations - 1)) [i..<maxStations]"
proof (induction stations maxStations spacing i selected rule: select_loop.induct)
  case (1 stations maxStations spacing i selected)
  show ?case
  proof (cases "i < maxStations")
    case True
    then have "select_loop stations maxStations spacing i selected =
        select_loop stations maxStations spacing (Suc i)
          (selected @ [stations ! min (i * spacing) (length stations - 1)])"
      by (simp add: select_loop.simps [of stations maxStations spacing i selected])
    also have "\<dots> = (selected @ [stations ! min (i * spacing) (length stations - 1)]) @
        map (\<lambda>j. stations ! min (j * spacing) (length stations - 1)) [Suc i..<maxStations]"
      using True "1.IH" by simp
    also have "\<dots> = selected @
        map (\<lambda>j. stations ! min (j * spacing) (length stations - 1)) [i..<maxStations]"
      using True by (simp add: upt_conv_Cons)
    finally show ?thesis .
  next
    case False
    then have "select_loop stations maxStations spacing i selected = selected"
      by (subst select_loop.simps) simp
    moreover from False "1.prems" have "[i..<maxStations] = []" by simp
    ultimately show ?thesis by simp
  qed
qed

lemma spacing_index_in_range:
  fixes N K i :: nat
  assumes "K < N" and "i < K"
  shows "i * (N div K) < N"
proof -
  from assms have K: "0 < K" by simp
  have "Suc i * (N div K) \<le> K * (N div K)"
    using assms(2) by (intro mult_le_mono1) simp
  also have "\<dots> \<le> N" by simp
  finally have "i * (N div K) + N div K \<le> N" by simp
  moreover have "0 < N div K"
    using assms(1) K by (simp add: div_greater_zero_iff)
  ultimately show ?thesis by linarith
qed

lemma spacing_index_strict_mono:
  fixes N K i j :: nat
  assumes "K < N" and "i < j" and "j < K"
  shows "i * (N div K) < j * (N div K)"
proof -
  from assms have "0 < K" by simp
  with assms(1) have "0 < N div K" by (simp add: div_greater_zero_iff)
  with assms(2) show ?thesis by simp
qed

text \<open>
  Claim C8. When there are at most \<open>K\<close> stations the input is returned unchanged.
  Otherwise the result has exactly \<open>K\<close> elements, the \<open>i\<close>-th being the input element
  at index \<open>min (i * (N div K)) (N - 1)\<close>; these indices lie inside the input and
  increase strictly with \<open>i\<close>, so the selection keeps the input's order. Twelve
  stations with \<open>K = 4\<close> give the elements at indices 0, 3, 6 and 9.
\<close>

theorem selectEvenlySpacedStations_spec:
  fixes stations :: "'a list" and twelve :: "'b list"
  shows "(length stations \<le> K \<longrightarrow> selectEvenlySpacedStations stations K = stations) \<and>
    (K < length stations \<longrightarrow>
       selectEvenlySpacedStations stations K =
         map (\<lambda>i. stations ! min (i * (length stations div K)) (length stations - 1)) [0..<K] \<and>
       length (selectEvenlySpacedStations stations K) = K \<and>
       (\<forall>i<K. min (i * (length stations div K)) (length stations - 1) = i * (length stations div K) \<and>
              i * (length stations div K) < length stations) \<and>
       (\<forall>i j. i < j \<and> j < K \<longrightarrow>
              min (i * (length stations div K)) (length stations - 1)
                < min (j * (length stations div K)) (length stations - 1))) \<and>
    (length twelve = 12 \<longrightarrow>
       selectEvenlySpacedStations twelve 4 = [twelve ! 0, twelve ! 3, twelve ! 6, twelve ! 9])"
proof (intro conjI impI)
  assume "length stations \<le> K"
  then show "selectEvenlySpacedStations stations K = stations"
    by (simp add: selectEvenlySpacedStations_def)
next
  assume less: "K < length stations"
  then show eq: "selectEvenlySpacedStations stations K =
      map (\<lambda>i. stations ! min (i * (length stations div K)) (length stations - 1)) [0..<K]"
    by (simp add: selectEvenlySpacedStations_def select_loop_unfold)
  then show "length (selectEvenlySpacedStations stations K) = K"
    by simp
  show inside: "\<forall>i<K. min (i * (length stations div K)) (length stations - 1)
        = i * (length stations div K) \<and> i * (length stations div K) < length stations"
  proof (intro allI impI)
    fix i assume "i < K"
    with less have "i * (length stations div K) < length stations"
      by (rule spacing_index_in_range)
    then show "min (i * (length stations div K)) (length stations - 1)
        = i * (length stations div K) \<and> i * (length stations div K) < length stations"
      by simp
  qed
  show "\<forall>i j. i < j \<and> j < K \<longrightarrow>
      min (i * (length stations div K)) (length stations - 1)
        < min (j * (length stations div K)) (length stations - 1)"
  proof (intro allI impI)
    fix i j assume ij: "i < j \<and> j < K"
    then have "i < K" and "j < K" by simp_all
    with inside have mi: "min (i * (length stations div K)) (length stations - 1)
          = i * (length stations div K)"
      and mj: "min (j * (length stations div K)) (length stations - 1)
          = j * (length stations div K)"
      by simp_all
    have "i * (length stations div K) < j * (length stations div K)"
      using less ij by (intro spacing_index_strict_mono) simp_all
    then show "min (i * (length stations div K)) (length stations - 1)
        < min (j * (length stations div K)) (length stations - 1)"
      by (simp only: mi mj)
  qed
next
  assume "length twelve = 12"
  then show "selectEvenlySpacedStations twelve 4 = [twelve ! 0, twelve ! 3, twelve ! 6, twelve ! 9]"
    by (simp add: selectEvenlySpacedStations_def select_loop_unfold upt_conv_Cons)
qed

theorem selectEvenlySpacedStations_spec_witness:
  "selectEvenlySpacedStations [10, 11, 12, 13, 14, 15, 16, 17, 18, 19, 20, 21 :: nat] 4
     = [10, 13, 16, 19] \<and>
   selectEvenlySpacedStations [1, 2, 3 :: nat] 4 = [1, 2, 3] \<and>
   length (selectEvenlySpacedStations [10, 11, 12, 13, 14, 15, 16, 17, 18, 19, 20, 21 :: nat] 5) = 5"
  using selectEvenlySpacedStations_spec
          [of "[10, 11, 12, 13, 14, 15, 16, 17, 18, 19, 20, 21 :: nat]" 5
              "[10, 11, 12, 13, 14, 15, 16, 17, 18, 19, 20, 21 :: nat]"]
        selectEvenlySpacedStations_spec [of "[1, 2, 3 :: nat]" 4 "[]::nat list"]
  by simp

subsection \<open>Properties of the movement planner\<close>

lemma movement_loop_unfold:
  assumes "i \<le> totalPoints"
    and "\<And>j. i \<le> j \<Longrightarrow> j < totalPoints \<Longrightarrow> movementPoint rc totalPoints j = Inr (f j)"
  shows "movement_loop rc totalPoints i acc = Inr (acc @ map f [i..totalPoints - 1])"
  using assms
proof (induction rc totalPoints i acc rule: movement_loop.induct)
  case (1 rc totalPoints i acc)
  show ?case
  proof (cases "i < totalPoints")
    case True
    have step: "movementPoint rc totalPoints i = Inr (f i)"
      using True "1.prems"(2) by simp
    have "movement_loop rc totalPoints i acc =
        movement_loop rc totalPoints (i + 1) (acc @ [f i])"
      using True step by (subst movement_loop.simps) simp
    also have "\<dots> = Inr ((acc @ [f i]) @ map f [i + 1..totalPoints - 1])"
      using True step "1.prems"(2) by (intro "1.IH") simp_all
    also have "(acc @ [f i]) @ map f [i + 1..totalPoints - 1] = acc @ map f [i..totalPoints - 1]"
      using True by (simp add: upto_rec1 [of i "totalPoints - 1"])
    finally show ?thesis .
  next
    case False
    then have "movement_loop rc totalPoints i acc = Inr acc"
      by (subst movement_loop.simps) simp
    moreover from False have "[i..totalPoints - 1] = []" by simp
    ultimately show ?thesis by simp
  qed
qed

lemma movement_loop_throws:
  assumes "i < totalPoints" and "movementPoint rc totalPoints i = Inl e"
  shows "movement_loop rc totalPoints i acc = Inl e"
  using assms by (subst movement_loop.simps) simp

lemma movementPoint_in_route:
  assumes len: "2 \<le> length rc" and tot: "int (length rc) \<le> totalPoints"
    and i: "0 \<le> i" "i < totalPoints"
  shows "\<exists>p. movementPoint rc totalPoints i = Inr (Some p)"
proof -
  define n where "n = int (length rc) - 1"
  define progress where "progress = real_of_int i / real_of_int (totalPoints - 1)"
  define ci where "ci = \<lfloor>progress * real_of_int n\<rfloor>"
  have n: "1 \<le> n" using len by (simp add: n_def)
  have t: "1 < totalPoints" using len tot by simp
  have p0: "0 \<le> progress"
    using i t by (simp add: progress_def)
  have p1: "progress \<le> 1"
    using i t by (simp add: progress_def)
  have "0 \<le> progress * real_of_int n"
    using p0 n by simp
  then have ci0: "0 \<le> ci" by (simp add: ci_def)
  have "progress * real_of_int n \<le> 1 * real_of_int n"
    using p1 n by (intro mult_right_mono) simp_all
  then have "ci \<le> \<lfloor>real_of_int n\<rfloor>"
    unfolding ci_def by (intro floor_mono) simp
  then have ci1: "ci \<le> n" by simp
  have a: "js_index rc ci = Some (rc ! nat ci)"
    using ci0 ci1 by (simp add: js_index_def n_def)
  have b: "js_index rc (min (ci + 1) n) = Some (rc ! nat (min (ci + 1) n))"
    using ci0 ci1 n by (auto simp add: js_index_def n_def min_def)
  have eq: "movementPoint rc totalPoints i =
      (if ci = min (ci + 1) n then Inr (js_index rc ci)
       else case (js_index rc ci, js_index rc (min (ci + 1) n)) of
              (Some start, Some finish) \<Rightarrow>
                Inr (Some (interpolateCoordinates start finish
                             (progress * real_of_int n - real_of_int ci)))
            | _ \<Rightarrow> Inl TypeError)"
    unfolding movementPoint_def Let_def ci_def progress_def n_def using t by simp
  show ?thesis
    unfolding eq using a b by (cases "ci = min (ci + 1) n") simp_all
qed

lemma processRouteForMovement_two_or_more:
  assumes "2 \<le> length rc"
  shows "processRouteForMovement rc d =
      Inr (map (\<lambda>j. projr (movementPoint rc (max \<lceil>d\<rceil> (int (length rc))) j))
             [0..max \<lceil>d\<rceil> (int (length rc)) - 1]) \<and>
    (\<forall>j. 0 \<le> j \<and> j < max \<lceil>d\<rceil> (int (length rc)) \<longrightarrow>
       projr (movementPoint rc (max \<lceil>d\<rceil> (int (length rc))) j) \<noteq> None)"
proof -
  define total where "total = max \<lceil>d\<rceil> (int (length rc))"
  have tot: "int (length rc) \<le> total" by (simp add: total_def)
  have pt: "\<exists>p. movementPoint rc total j = Inr (Some p)" if "0 \<le> j" "j < total" for j
    using assms tot that by (rule movementPoint_in_route)
  have "movement_loop rc total 0 [] =
      Inr ([] @ map (\<lambda>j. projr (movementPoint rc total j)) [0..total - 1])"
  proof (rule movement_loop_unfold)
    show "0 \<le> total" using tot by simp
  next
    fix j :: int assume "0 \<le> j" "j < total"
    then obtain p where "movementPoint rc total j = Inr (Some p)" using pt by blast
    then show "movementPoint rc total j = Inr (projr (movementPoint rc total j))" by simp
  qed
  moreover have "projr (movementPoint rc total j) \<noteq> None" if "0 \<le> j \<and> j < total" for j
  proof -
    from that obtain p where "movementPoint rc total j = Inr (Some p)" using pt by blast
    then show ?thesis by simp
  qed
  ultimately show ?thesis
    by (simp add: processRouteForMovement_def Let_def total_def)
qed

lemma movementPoint_single:
  assumes "totalPoints \<noteq> 1"
  shows "movementPoint [p] totalPoints j = Inr (Some p)"
  using assms by (simp add: movementPoint_def js_index_def)

lemma movementPoint_empty_first:
  "movementPoint [] totalPoints 0 = Inl TypeError"
  by (simp add: movementPoint_def js_index_def)

text \<open>
  Claim C6. \<open>processRouteForMovement\<close> is a function of the coordinate array and the
  duration alone (it reads and writes nothing else, so two calls with the same inputs
  return the same sequence). With at least two coordinates it returns a sequence, with
  no \<open>undefined\<close> entry, of \<open>max \<lceil>duration\<rceil> (length routeCoordinates)\<close> points. For the
  route \<open>[[0,0],[0,1]]\<close> and 120 seconds it returns 120 points, the first \<open>[0,0]\<close>, the
  last \<open>[0,1]\<close>, and point 60 is \<open>[0, 60/119]\<close>, within 0.0005 of 0.504.
\<close>

theorem processRouteForMovement_plan:
  "(2 \<le> length rc \<longrightarrow>
      (\<exists>ps. processRouteForMovement rc d = Inr (map Some ps) \<and>
            int (length ps) = max \<lceil>d\<rceil> (int (length rc)))) \<and>
   (\<exists>ps y. processRouteForMovement [(0, 0), (0, 1)] 120 = Inr ps \<and> length ps = 120 \<and>
         ps ! 0 = Some (0, 0) \<and> ps ! 119 = Some (0, 1) \<and> ps ! 60 = Some (0, y) \<and>
         \<bar>y - 0.504\<bar> < 0.0005)"
proof (intro conjI impI)
  assume len: "2 \<le> length rc"
  define total where "total = max \<lceil>d\<rceil> (int (length rc))"
  define f where "f = (\<lambda>j. projr (movementPoint rc total j))"
  from processRouteForMovement_two_or_more [OF len, of d]
  have res: "processRouteForMovement rc d = Inr (map f [0..total - 1])"
    and some: "\<And>j. 0 \<le> j \<and> j < total \<Longrightarrow> f j \<noteq> None"
    by (simp_all add: total_def f_def)
  have "map Some (map (\<lambda>j. the (f j)) [0..total - 1]) = map f [0..total - 1]"
    using some by (simp add: comp_def)
  moreover have "0 \<le> total"
    unfolding total_def by linarith
  then have "int (length (map (\<lambda>j. the (f j)) [0..total - 1])) = total"
    by simp
  ultimately show "\<exists>ps. processRouteForMovement rc d = Inr (map Some ps) \<and>
      int (length ps) = max \<lceil>d\<rceil> (int (length rc))"
    using res unfolding total_def by metis
next
  define f where "f = (\<lambda>j. projr (movementPoint [(0, 0), (0, 1)] 120 j))"
  have res: "processRouteForMovement [(0, 0), (0, 1)] 120 = Inr (map f [0..119])"
    using processRouteForMovement_two_or_more [of "[(0, 0), (0, 1)]" 120]
    by (simp add: f_def)
  have nth: "map f [0..119] ! k = f (int k)" if "k < 120" for k
    using that by simp
  have f0: "f 0 = Some (0, 0)"
    by (simp add: f_def movementPoint_def js_index_def interpolateCoordinates_def)
  have f119: "f 119 = Some (0, 1)"
    by (simp add: f_def movementPoint_def js_index_def interpolateCoordinates_def)
  have f60: "f 60 = Some (0, 60 / 119)"
    by (simp add: f_def movementPoint_def js_index_def interpolateCoordinates_def)
  have "map f [0..119] ! 0 = Some (0, 0)"
    using nth [of 0] f0 by simp
  moreover have "map f [0..119] ! 119 = Some (0, 1)"
    using nth [of 119] f119 by simp
  moreover have "map f [0..119] ! 60 = Some (0, 60 / 119)"
    using nth [of 60] f60 by simp
  moreover have "length (map f [0..119]) = 120" by simp
  moreover have "\<bar>(60 / 119 :: real) - 0.504\<bar> < 0.0005" by simp
  ultimately show "\<exists>ps y. processRouteForMovement [(0, 0), (0, 1)] 120 = Inr ps \<and>
      length ps = 120 \<and> ps ! 0 = Some (0, 0) \<and> ps ! 119 = Some (0, 1) \<and>
      ps ! 60 = Some (0, y) \<and> \<bar>y - 0.504\<bar> < 0.0005"
    using res by blast
qed

theorem processRouteForMovement_plan_witness:
  "\<exists>ps. processRouteForMovement [(0, 0), (0, 1), (2, 1)] (5 / 2) = Inr (map Some ps) \<and>
     length ps = 3"
  using processRouteForMovement_plan [of "[(0, 0), (0, 1), (2, 1)]" "5 / 2"]
  by simp

text \<open>
  Claim C7, as stated, fails: the function has no check on the number of coordinates
  and never raises an error of its own. A single coordinate with a duration of two
  seconds is planned as two copies of that coordinate.
\<close>

theorem processRouteForMovement_single_point_returns:
  "processRouteForMovement [(3, 4)] 2 = Inr [Some (3, 4), Some (3, 4)]"
proof -
  have "movement_loop [(3, 4)] 2 0 [] = Inr ([] @ map (\<lambda>j. Some (3, 4)) [0..2 - 1])"
    by (rule movement_loop_unfold) (simp_all add: movementPoint_single)
  then show ?thesis
    by (simp add: processRouteForMovement_def upto_rec1)
qed

text \<open>
  Claim C7, amended. With fewer than two coordinates the function checks nothing.
  With no coordinate it returns the empty sequence when \<open>\<lceil>duration\<rceil> \<le> 0\<close> and
  otherwise throws a \<open>TypeError\<close> in the first pass of the loop (a component of
  \<open>undefined\<close> is read). With one coordinate it throws that \<open>TypeError\<close> when
  \<open>\<lceil>duration\<rceil> \<le> 1\<close> and otherwise returns \<open>\<lceil>duration\<rceil>\<close> copies of the coordinate.
\<close>

theorem processRouteForMovement_short_route:
  "processRouteForMovement [] d = (if \<lceil>d\<rceil> \<le> 0 then Inr [] else Inl TypeError) \<and>
   processRouteForMovement [p] d =
     (if \<lceil>d\<rceil> \<le> 1 then Inl TypeError else Inr (replicate (nat \<lceil>d\<rceil>) (Some p)))"
proof
  show "processRouteForMovement [] d = (if \<lceil>d\<rceil> \<le> 0 then Inr [] else Inl TypeError)"
  proof (cases "\<lceil>d\<rceil> \<le> 0")
    case True
    then have "max \<lceil>d\<rceil> 0 = 0" by simp
    then show ?thesis
      using True by (simp add: processRouteForMovement_def movement_loop.simps [of _ 0 0])
  next
    case False
    then have m: "max \<lceil>d\<rceil> 0 = \<lceil>d\<rceil>" and pos: "0 < \<lceil>d\<rceil>" by simp_all
    have "movement_loop [] \<lceil>d\<rceil> 0 [] = Inl TypeError"
      using pos movementPoint_empty_first by (rule movement_loop_throws)
    then show ?thesis
      using False m by (simp add: processRouteForMovement_def)
  qed
next
  show "processRouteForMovement [p] d =
     (if \<lceil>d\<rceil> \<le> 1 then Inl TypeError else Inr (replicate (nat \<lceil>d\<rceil>) (Some p)))"
  proof (cases "\<lceil>d\<rceil> \<le> 1")
    case True
    then have m: "max \<lceil>d\<rceil> 1 = 1" by simp
    have "movement_loop [p] 1 0 [] = Inl TypeError"
      by (rule movement_loop_throws) (simp_all add: movementPoint_def)
    then show ?thesis
      using True m by (simp add: processRouteForMovement_def)
  next
    case False
    then have m: "max \<lceil>d\<rceil> 1 = \<lceil>d\<rceil>" and big: "1 < \<lceil>d\<rceil>" by simp_all
    have ne: "\<lceil>d\<rceil> \<noteq> 1" and nonneg: "0 \<le> \<lceil>d\<rceil>"
      using big by linarith+
    have "movement_loop [p] \<lceil>d\<rceil> 0 [] = Inr ([] @ map (\<lambda>j. Some p) [0..\<lceil>d\<rceil> - 1])"
    proof (rule movement_loop_unfold)
      show "0 \<le> \<lceil>d\<rceil>" by (rule nonneg)
    next
      fix j :: int
      show "movementPoint [p] \<lceil>d\<rceil> j = Inr (Some p)"
        using ne by (rule movementPoint_single)
    qed
    moreover have "length [0..\<lceil>d\<rceil> - 1] = nat \<lceil>d\<rceil>"
      by simp
    then have "map (\<lambda>j. Some p) [0..\<lceil>d\<rceil> - 1] = replicate (nat \<lceil>d\<rceil>) (Some p)"
      by (simp only: map_replicate_const)
    ultimately show ?thesis
      using False m by (simp add: processRouteForMovement_def)
  qed
qed

subsection \<open>Properties of the projection on the route\<close>

lemma nearest_loop_invariant:
  assumes "nearest_so_far st pre (m, idx, pt)"
  shows "nearest_so_far st (pre @ ps) (nearest_loop st ps (length pre) m idx pt)"
  using assms
proof (induction ps arbitrary: pre m idx pt)
  case Nil
  then show ?case by simp
next
  case (Cons p rest)
  let ?d = "calculateDistance st p"
  show ?case
  proof (cases "case m of None \<Rightarrow> True | Some d0 \<Rightarrow> ?d < d0")
    case True
    have "nearest_so_far st (pre @ [p]) (Some ?d, length pre, Some p)"
    proof (cases m)
      case None
      with Cons.prems show ?thesis by (simp add: nearest_so_far_def)
    next
      case (Some d0)
      with True have less: "?d < d0" by simp
      from Cons.prems Some have old: "\<forall>j<length pre. d0 \<le> calculateDistance st (pre ! j)"
        by (auto simp add: nearest_so_far_def)
      have "?d \<le> calculateDistance st ((pre @ [p]) ! j)" if "j < length (pre @ [p])" for j
        using that old less by (cases "j < length pre") (auto simp add: nth_append)
      moreover have "?d < calculateDistance st ((pre @ [p]) ! j)" if "j < length pre" for j
        using that old less by (auto simp add: nth_append)
      ultimately show ?thesis by (simp add: nearest_so_far_def)
    qed
    from Cons.IH [OF this] True show ?thesis by simp
  next
    case False
    then obtain d0 where m: "m = Some d0" and ge: "d0 \<le> ?d"
      by (cases m) auto
    from Cons.prems m have old: "idx < length pre" "d0 = calculateDistance st (pre ! idx)"
      "pt = Some (pre ! idx)" "\<forall>j<length pre. d0 \<le> calculateDistance st (pre ! j)"
      "\<forall>j<idx. d0 < calculateDistance st (pre ! j)"
      by (auto simp add: nearest_so_far_def)
    have "d0 \<le> calculateDistance st ((pre @ [p]) ! j)" if "j < length (pre @ [p])" for j
      using that old(4) ge by (cases "j < length pre") (auto simp add: nth_append)
    moreover have "d0 < calculateDistance st ((pre @ [p]) ! j)" if "j < idx" for j
      using that old(1,5) by (auto simp add: nth_append)
    ultimately have "nearest_so_far st (pre @ [p]) (m, idx, pt)"
      using old(1,2,3) m by (simp add: nearest_so_far_def nth_append)
    from Cons.IH [OF this] False show ?thesis by simp
  qed
qed

lemma findNearestPointOnRoute_nearest:
  assumes "rc \<noteq> []"
  shows "\<exists>i<length rc.
      findNearestPointOnRoute st rc =
        \<lparr>position_index = i, position_coordinates = Some (rc ! i),
         distanceKm = Some (js_round (calculateDistance st (rc ! i) * 10) / 10)\<rparr> \<and>
      (\<forall>j<length rc. calculateDistance st (rc ! i) \<le> calculateDistance st (rc ! j)) \<and>
      (\<forall>j<i. calculateDistance st (rc ! i) < calculateDistance st (rc ! j))"
proof -
  obtain m idx pt where loop:
    "nearest_loop st rc 0 None 0 (case rc of [] \<Rightarrow> None | p # rest \<Rightarrow> Some p) = (m, idx, pt)"
    by (cases "nearest_loop st rc 0 None 0 (case rc of [] \<Rightarrow> None | p # rest \<Rightarrow> Some p)") auto
  have "nearest_so_far st [] (None, 0, case rc of [] \<Rightarrow> None | p # rest \<Rightarrow> Some p)"
    by (simp add: nearest_so_far_def)
  from nearest_loop_invariant [OF this, of rc] loop
  have inv: "nearest_so_far st rc (m, idx, pt)" by simp
  with assms obtain d where m: "m = Some d" by (cases m) (auto simp add: nearest_so_far_def)
  with inv have "idx < length rc" "d = calculateDistance st (rc ! idx)" "pt = Some (rc ! idx)"
    "\<forall>j<length rc. d \<le> calculateDistance st (rc ! j)"
    "\<forall>j<idx. d < calculateDistance st (rc ! j)"
    by (auto simp add: nearest_so_far_def)
  with loop m show ?thesis
    by (intro exI [of _ idx]) (simp add: findNearestPointOnRoute_def)
qed

text \<open>
  The primary strategy records, for each station it returns, the rounded distance to
  the nearest route coordinate and the first index at which that distance is attained.
\<close>

lemma selectEvenlySpacedStations_subset:
  "set (selectEvenlySpacedStations xs k) \<subseteq> set xs"
proof (cases "length xs \<le> k")
  case True
  then show ?thesis by (simp add: selectEvenlySpacedStations_def)
next
  case False
  then have "0 < length xs" by linarith
  then have "min (j * (length xs div k)) (length xs - 1) < length xs" for j
    by linarith
  then show ?thesis
    using False by (auto simp add: selectEvenlySpacedStations_def select_loop_unfold)
qed

lemma station_within_Some:
  assumes "station_within rc maxDistance st = Some m"
  shows "matched m = st" and "routePosition m = findNearestPointOnRoute (location_coordinates st) rc"
    and "distanceKm (routePosition m) = Some (distanceFromRouteKm m)"
    and "distanceFromRouteKm m \<le> maxDistance"
  using assms
  by (auto simp add: station_within_def Let_def split: option.splits if_splits)

lemma findStationsWithinRouteBuffer_matches:
  assumes "m \<in> set (findStationsWithinRouteBuffer store rc maxDistance maxStations)"
  shows "\<exists>st. station_within rc maxDistance st = Some m"
proof -
  obtain minLng maxLng minLat maxLat
    where b: "calculateRouteBounds rc = (minLng, maxLng, minLat, maxLat)"
    by (cases "calculateRouteBounds rc") auto
  from assms b obtain found where
    "m \<in> set (selectEvenlySpacedStations
        (sort_key (\<lambda>m. position_index (routePosition m))
           (List.map_filter (station_within rc maxDistance) (take (maxStations * 5) found)))
        maxStations)"
    by (auto simp add: findStationsWithinRouteBuffer_def Let_def
        split: option.splits if_splits)
  with selectEvenlySpacedStations_subset
  have "m \<in> set (List.map_filter (station_within rc maxDistance) (take (maxStations * 5) found))"
    by fastforce
  then show ?thesis
    by (auto simp add: List.map_filter_def)
qed

lemma primary_strategy_distance:
  assumes "m \<in> set (findStationsWithinRouteBuffer store rc maxDistance maxStations)"
  shows "\<exists>i<length rc.
      position_index (routePosition m) = i \<and>
      position_coordinates (routePosition m) = Some (rc ! i) \<and>
      distanceFromRouteKm m =
        js_round (calculateDistance (location_coordinates (matched m)) (rc ! i) * 10) / 10 \<and>
      (\<forall>j<length rc. calculateDistance (location_coordinates (matched m)) (rc ! i)
                       \<le> calculateDistance (location_coordinates (matched m)) (rc ! j)) \<and>
      (\<forall>j<i. calculateDistance (location_coordinates (matched m)) (rc ! i)
                < calculateDistance (location_coordinates (matched m)) (rc ! j))"
proof -
  from findStationsWithinRouteBuffer_matches [OF assms]
  obtain st where st: "station_within rc maxDistance st = Some m" by blast
  note m = station_within_Some [OF st]
  have "rc \<noteq> []"
  proof
    assume "rc = []"
    then have "distanceKm (findNearestPointOnRoute (location_coordinates st) rc) = None"
      by (simp add: findNearestPointOnRoute_def)
    with m(2,3) show False by simp
  qed
  from findNearestPointOnRoute_nearest [OF this, of "location_coordinates st"]
  obtain i where i: "i < length rc"
    "findNearestPointOnRoute (location_coordinates st) rc =
        \<lparr>position_index = i, position_coordinates = Some (rc ! i),
         distanceKm = Some (js_round (calculateDistance (location_coordinates st) (rc ! i) * 10) / 10)\<rparr>"
    "\<forall>j<length rc. calculateDistance (location_coordinates st) (rc ! i)
        \<le> calculateDistance (location_coordinates st) (rc ! j)"
    "\<forall>j<i. calculateDistance (location_coordinates st) (rc ! i)
        < calculateDistance (location_coordinates st) (rc ! j)"
    by blast
  from m i show ?thesis
    by (intro exI [of _ i]) simp
qed

subsection \<open>Distances, evaluated\<close>

lemma atan2_nonneg:
  assumes "0 \<le> y"
  shows "0 \<le> atan2 y x"
proof -
  have "- (pi / 2) < arctan (y / x)" by (rule arctan_lbound)
  then have "0 \<le> arctan (y / x) + pi" using pi_gt_zero by linarith
  moreover have "0 \<le> arctan (y / x)" if "0 < x"
    using assms that by simp
  ultimately show ?thesis
    using assms by (simp add: atan2_def)
qed

lemma calculateDistance_same: "calculateDistance p p = 0"
  by (simp add: calculateDistance_def atan2_def)

lemma calculateDistance_equator_nonneg: "0 \<le> calculateDistance (x, 0) (y, 0)"
proof -
  have "0 \<le> atan2 (sqrt (sin ((y - x) * pi / 180 / 2) * sin ((y - x) * pi / 180 / 2))) z" for z
    by (rule atan2_nonneg) simp
  then show ?thesis
    by (simp add: calculateDistance_def)
qed

lemma js_round_mono: "x \<le> y \<Longrightarrow> js_round x \<le> js_round y"
  by (simp add: js_round_def floor_mono)

lemma arctan_upper:
  assumes "0 \<le> z"
  shows "arctan z \<le> z"
proof -
  have "0 - arctan 0 \<le> z - arctan z"
  proof (rule DERIV_nonneg_imp_nondecreasing [of 0 z "\<lambda>t. t - arctan t"])
    show "0 \<le> z" by (rule assms)
  next
    fix t :: real
    have "((\<lambda>t. t - arctan t) has_real_derivative 1 - inverse (1 + t\<^sup>2)) (at t)"
      by (auto intro!: derivative_eq_intros)
    moreover have "inverse (1 + t\<^sup>2) \<le> 1"
      by (rule inverse_le_1_iff [THEN iffD2]) simp
    ultimately show "\<exists>y. ((\<lambda>t. t - arctan t) has_real_derivative y) (at t) \<and> 0 \<le> y"
      by (intro exI [of _ "1 - inverse (1 + t\<^sup>2)"]) simp
  qed
  then show ?thesis by simp
qed

text \<open>
  The station at \<open>[0.07, 60]\<close> is less than 3.54 km from the route point
  \<open>[0.02, 60]\<close>.
\<close>

lemma demo_station_distance:
  "calculateDistance (7 / 100, 60) (2 / 100, 60) \<le> 354 / 100"
proof -
  define s where "s = sin (pi / 7200)"
  define a where "a = s\<^sup>2 / 4"
  have pi4: "pi < 4" using pi_half_less_two by simp
  have s0: "0 \<le> s"
    unfolding s_def by (rule sin_ge_zero) (use pi4 in simp_all)
  have "s \<le> pi / 7200"
    unfolding s_def by (rule sin_x_le_x) simp
  with pi4 have s1: "s \<le> 1 / 1800" by simp
  have "s\<^sup>2 \<le> (1 / 1800)\<^sup>2"
    using s1 s0 by (rule power_mono)
  then have a1: "a \<le> 1 / 12960000" by (simp add: a_def power2_eq_square)
  have a0: "0 \<le> a" by (simp add: a_def)
  have root: "sqrt a = s / 2"
    using s0 by (simp add: a_def real_sqrt_divide)
  have "(1 - a)\<^sup>2 \<le> 1 - a"
    using a0 a1 by (simp add: power2_eq_square mult_left_le_one_le)
  then have "1 - a \<le> sqrt (1 - a)" by (rule real_le_rsqrt)
  with a1 have x1: "12959999 / 12960000 \<le> sqrt (1 - a)" by simp
  have x0: "0 < sqrt (1 - a)" using a1 by simp
  have "s / 2 / sqrt (1 - a) \<le> (1 / 3600) / (12959999 / 12960000)"
  proof (rule frac_le)
    show "0 \<le> (1 / 3600 :: real)" by simp
    show "s / 2 \<le> 1 / 3600" using s1 by simp
    show "0 < (12959999 / 12960000 :: real)" by simp
    show "12959999 / 12960000 \<le> sqrt (1 - a)" by (rule x1)
  qed
  then have ratio: "s / 2 / sqrt (1 - a) \<le> 3600 / 12959999" by simp
  have "atan2 (sqrt a) (sqrt (1 - a)) = arctan (s / 2 / sqrt (1 - a))"
    using x0 by (simp add: atan2_def root)
  also have "\<dots> \<le> s / 2 / sqrt (1 - a)"
    using s0 x0 by (intro arctan_upper) simp
  finally have angle: "atan2 (sqrt a) (sqrt (1 - a)) \<le> 3600 / 12959999"
    using ratio by simp
  have "calculateDistance (7 / 100, 60) (2 / 100, 60)
      = 6371 * (2 * atan2 (sqrt a) (sqrt (1 - a)))"
  proof -
    have "sin ((2 / 100 - 7 / 100) * pi / 180 / 2) = - s"
    proof -
      have "(2 / 100 - 7 / 100) * pi / 180 / 2 = - (pi / 7200)" by simp
      then show ?thesis by (simp only: sin_minus s_def)
    qed
    then show ?thesis
      by (simp add: calculateDistance_def Let_def a_def power2_eq_square cos_60)
  qed
  also have "\<dots> \<le> 6371 * (2 * (3600 / 12959999))"
    using angle by simp
  also have "\<dots> \<le> 354 / 100" by simp
  finally show ?thesis .
qed

lemma demo_primary_empty:
  "findStationsWithinRouteBuffer demo_station_store demo_route_coordinates 5 4 = []"
  by (simp add: findStationsWithinRouteBuffer_def calculateRouteBounds_def
      demo_route_coordinates_def demo_station_store_def demo_station_def
      at_least_def at_most_def)

lemma demo_fallback:
  "findStationsNearRoutePoints demo_station_store demo_route_coordinates 5 4 =
     [\<lparr>matched = demo_station,
       routePosition =
         findNearestPointOnRoute (location_coordinates demo_station) demo_route_coordinates,
       distanceFromRouteKm = 39 / 10\<rparr>]"
  by (simp add: findStationsNearRoutePoints_def demo_route_coordinates_def
      demo_station_store_def add_station_def js_round_def enumerate_eq_zip
      selectEvenlySpacedStations_def upt_rec [of 0] upt_rec [of 1] upt_rec [of "Suc 0"])

lemma demo_nearest:
  "distanceKm (findNearestPointOnRoute (location_coordinates demo_station) demo_route_coordinates)
     = Some (js_round (min (calculateDistance (7 / 100, 60) (0, 60))
                           (calculateDistance (7 / 100, 60) (2 / 100, 60)) * 10) / 10)"
proof -
  let ?rc = "[(0, 60), (2 / 100, 60)] :: point list"
  let ?st = "(7 / 100, 60) :: point"
  have "?rc \<noteq> []" by simp
  from findNearestPointOnRoute_nearest [OF this, of ?st]
  obtain i where i: "i < length ?rc"
    and rp: "distanceKm (findNearestPointOnRoute ?st ?rc) =
      Some (js_round (calculateDistance ?st (?rc ! i) * 10) / 10)"
    and least: "\<forall>j<length ?rc. calculateDistance ?st (?rc ! i) \<le> calculateDistance ?st (?rc ! j)"
    by force
  have "calculateDistance ?st (?rc ! i) \<le> calculateDistance ?st (?rc ! 0)"
    and "calculateDistance ?st (?rc ! i) \<le> calculateDistance ?st (?rc ! 1)"
    using least [rule_format, of 0] least [rule_format, of 1] by simp_all
  moreover from i have "i = 0 \<or> i = 1" by auto
  ultimately have "calculateDistance ?st (?rc ! i) =
      min (calculateDistance ?st (0, 60)) (calculateDistance ?st (2 / 100, 60))"
    by auto
  with rp show ?thesis
    by (simp add: demo_station_def demo_route_coordinates_def)
qed

lemma demo_nearest_bound:
  "js_round (min (calculateDistance (7 / 100, 60) (0, 60))
                 (calculateDistance (7 / 100, 60) (2 / 100, 60)) * 10) / 10 \<le> 35 / 10"
proof -
  have "min (calculateDistance (7 / 100, 60) (0, 60))
            (calculateDistance (7 / 100, 60) (2 / 100, 60)) * 10 \<le> 354 / 10"
    using demo_station_distance by simp
  then have "js_round (min (calculateDistance (7 / 100, 60) (0, 60))
            (calculateDistance (7 / 100, 60) (2 / 100, 60)) * 10) \<le> js_round (354 / 10)"
    by (rule js_round_mono)
  also have "js_round (354 / 10) = 35"
    by (simp add: js_round_def)
  finally show ?thesis by simp
qed

lemma equator_nearest:
  "findNearestPointOnRoute (0, 0) [(0, 0), (10, 0)] =
     \<lparr>position_index = 0, position_coordinates = Some (0, 0), distanceKm = Some 0\<rparr>"
proof -
  have "\<not> calculateDistance (0, 0) (10, 0) < 0"
    using calculateDistance_equator_nonneg [of 0 10] by simp
  then show ?thesis
    by (simp add: findNearestPointOnRoute_def calculateDistance_same js_round_def)
qed

text \<open>
  Claim C9 holds for the primary strategy (\<open>primary_strategy_distance\<close>) and in the
  scenario of the station at \<open>(0,0)\<close>, but not for the fallback strategy. The route
  \<open>[[0,60],[0.02,60]]\<close> has one station nearby, at \<open>[0.07,60]\<close>. With a distance of 5
  km the expanded box ends at longitude \<open>0.02 + 5/111\<close>, west of the station, so the
  primary strategy finds nothing and the fallback runs. The station is found from the
  first sample point \<open>[0,60]\<close>, 3896 metres away, and is returned with
  \<open>distanceFromRouteKm = 3.9\<close>. The rounded minimum of the Haversine distances to the
  route coordinates, which \<open>routePosition.distanceKm\<close> holds, is at most 3.5.
\<close>

theorem fallback_records_sample_distance:
  "findStationsWithinRouteBuffer demo_station_store demo_route_coordinates 5 4 = [] \<and>
   findChargingStationsAlongRoute demo_station_store demo_route_coordinates 5 4 =
     [\<lparr>matched = demo_station,
       routePosition =
         findNearestPointOnRoute (location_coordinates demo_station) demo_route_coordinates,
       distanceFromRouteKm = 39 / 10\<rparr>] \<and>
   distanceKm (findNearestPointOnRoute (location_coordinates demo_station) demo_route_coordinates)
     = Some (js_round (min (calculateDistance (7 / 100, 60) (0, 60))
                           (calculateDistance (7 / 100, 60) (2 / 100, 60)) * 10) / 10) \<and>
   js_round (min (calculateDistance (7 / 100, 60) (0, 60))
                 (calculateDistance (7 / 100, 60) (2 / 100, 60)) * 10) / 10 \<le> 35 / 10 \<and>
   findNearestPointOnRoute (0, 0) [(0, 0), (10, 0)] =
     \<lparr>position_index = 0, position_coordinates = Some (0, 0), distanceKm = Some 0\<rparr>"
proof -
  have "findChargingStationsAlongRoute demo_station_store demo_route_coordinates 5 4 =
      findStationsNearRoutePoints demo_station_store demo_route_coordinates 5 4"
    by (simp add: findChargingStationsAlongRoute_def demo_primary_empty)
       (simp add: demo_route_coordinates_def)
  then show ?thesis
    by (simp only: demo_primary_empty demo_fallback demo_nearest demo_nearest_bound
        equator_nearest simp_thms)
qed

subsection \<open>The store and broadcast primitives\<close>

lemma emit_fields [simp]:
  "activeNavigations (emit room p s) = activeNavigations s"
  "heap (emit room p s) = heap s"
  "timers (emit room p s) = timers s"
  "routes (emit room p s) = routes s"
  "fleet (emit room p s) = fleet s"
  "next_ref (emit room p s) = next_ref s"
  "next_interval (emit room p s) = next_interval s"
  "pending (emit room p s) = pending s"
  "exited (emit room p s) = exited s"
  "emitted (emit room p s) = emitted s @ [(room, p)]"
  by (simp_all add: emit_def)

lemma route_findByIdAndUpdate_fields [simp]:
  "activeNavigations (route_findByIdAndUpdate rid st act s) = activeNavigations s"
  "heap (route_findByIdAndUpdate rid st act s) = heap s"
  "timers (route_findByIdAndUpdate rid st act s) = timers s"
  "fleet (route_findByIdAndUpdate rid st act s) = fleet s"
  "next_ref (route_findByIdAndUpdate rid st act s) = next_ref s"
  "next_interval (route_findByIdAndUpdate rid st act s) = next_interval s"
  "pending (route_findByIdAndUpdate rid st act s) = pending s"
  "exited (route_findByIdAndUpdate rid st act s) = exited s"
  "emitted (route_findByIdAndUpdate rid st act s) = emitted s"
  by (simp_all add: route_findByIdAndUpdate_def split: option.split)

lemma route_findByIdAndUpdate_routes:
  "routes (route_findByIdAndUpdate rid st act s) =
     (case routes s rid of
        None \<Rightarrow> routes s
      | Some r \<Rightarrow> (routes s)(rid \<mapsto> r\<lparr>route_status := st, route_isActive := act\<rparr>))"
  by (simp add: route_findByIdAndUpdate_def split: option.split)

lemma fleet_findOneAndUpdate_fields [simp]:
  "activeNavigations (fleet_findOneAndUpdate uid pos s) = activeNavigations s"
  "heap (fleet_findOneAndUpdate uid pos s) = heap s"
  "timers (fleet_findOneAndUpdate uid pos s) = timers s"
  "routes (fleet_findOneAndUpdate uid pos s) = routes s"
  "next_ref (fleet_findOneAndUpdate uid pos s) = next_ref s"
  "next_interval (fleet_findOneAndUpdate uid pos s) = next_interval s"
  "pending (fleet_findOneAndUpdate uid pos s) = pending s"
  "exited (fleet_findOneAndUpdate uid pos s) = exited s"
  "emitted (fleet_findOneAndUpdate uid pos s) = emitted s"
  by (simp_all add: fleet_findOneAndUpdate_def split: option.split)

lemma fleet_findOneAndUpdate_fleet:
  "fleet (fleet_findOneAndUpdate uid pos s) =
     (case fleet s uid of None \<Rightarrow> fleet s | Some old \<Rightarrow> (fleet s)(uid \<mapsto> pos))"
  by (simp add: fleet_findOneAndUpdate_def split: option.split)

lemma clearInterval_fields [simp]:
  "activeNavigations (clearInterval h s) = activeNavigations s"
  "heap (clearInterval h s) = heap s"
  "routes (clearInterval h s) = routes s"
  "fleet (clearInterval h s) = fleet s"
  "next_ref (clearInterval h s) = next_ref s"
  "next_interval (clearInterval h s) = next_interval s"
  "pending (clearInterval h s) = pending s"
  "exited (clearInterval h s) = exited s"
  "emitted (clearInterval h s) = emitted s"
  "timers (clearInterval h s) = (case h of None \<Rightarrow> timers s | Some iid \<Rightarrow> (timers s)(iid := None))"
  by (simp_all add: clearInterval_def split: option.split)

lemma run_Nil [simp]: "run [] s = s"
  by (simp add: run_def)

lemma run_Cons [simp]: "run (e # es) s = run es (step e s)"
  by (simp add: run_def)

lemma run_append: "run (es @ es') s = run es' (run es s)"
  by (simp add: run_def)

subsection \<open>The small server run, evaluated\<close>

lemma demo_plan:
  "processRouteForMovement [(0, 0), (0, 1)] 2 = Inr [Some (0, 0), Some (0, 1)]"
proof -
  have "movement_loop [(0, 0), (0, 1)] 2 0 [] =
      Inr ([] @ map (\<lambda>j. if j = 0 then Some (0, 0) else Some (0, 1)) [0..2 - 1])"
  proof (rule movement_loop_unfold)
    fix j :: int assume "0 \<le> j" "j < 2"
    then have "j = 0 \<or> j = 1" by auto
    then show "movementPoint [(0, 0), (0, 1)] 2 j =
        Inr (if j = 0 then Some (0, 0) else Some (0, 1))"
      by (auto simp add: movementPoint_def js_index_def interpolateCoordinates_def)
  qed simp
  then show ?thesis
    by (simp add: processRouteForMovement_def upto_rec1)
qed

lemma demo_started_fields:
  "activeNavigations demo_started = [''A'' \<mapsto> 0]"
  "heap demo_started = (\<lambda>r. blank_navigation)(0 := demo_navigation)"
  "timers demo_started = [0 \<mapsto> StartTick ''A'' ''r1'' 0]"
  "routes demo_started =
     [''r1'' \<mapsto> demo_route\<lparr>route_status := Alive, route_isActive := True\<rparr>]"
  "fleet demo_started = [''A'' \<mapsto> Some (5, 5)]"
  "emitted demo_started = []"
  "next_ref demo_started = 1"
  "next_interval demo_started = 1"
  "pending demo_started = []"
  "exited demo_started = False"
  by (simp_all add: demo_started_def step_def spawn_def startNavigation_def settle_def
      demo_boot_def demo_route_def demo_plan route_findByIdAndUpdate_def setInterval_def
      array_get_def demo_navigation_def Let_def)

subsection \<open>The two tick callbacks, each run without interruption\<close>

text \<open>
  Run to its end with nothing in between, the callback of \<^verbatim>\<open>/resumeNavigation\<close> does
  what the callback of \<^verbatim>\<open>/startNavigation\<close> does for the route of the navigation
  object, except that it leaves the \<open>Fleet\<close> collection as it was.
\<close>

lemma resume_tick_is_start_tick_without_fleet:
  "spawn (settle_now store (settle_now store (resume_tick uid r s))) =
   (spawn (settle_now store (settle_now store (start_tick uid (routeId (heap s r)) r s))))
     \<lparr>fleet := fleet s\<rparr>"
proof (cases "length (movementPoints (heap s r)) \<le> currentIndex (heap s r)")
  case True
  then show ?thesis
    by (cases store)
       (simp_all add: resume_tick_def start_tick_def settle_now_def settle_def spawn_def Let_def
          emit_def route_findByIdAndUpdate_def clearInterval_def split: option.split)
next
  case False
  then show ?thesis
    by (cases store; cases "fleet s uid")
       (simp_all add: resume_tick_def start_tick_def settle_now_def settle_def spawn_def Let_def
          emit_def fleet_findOneAndUpdate_def start_tick_publish_def progress_percent_def)
qed

lemma demo_first_tick:
  "tick 0 Succeeds demo_started =
     demo_started\<lparr>heap := (heap demo_started)(0 := demo_navigation\<lparr>currentIndex := 1\<rparr>),
       fleet := [''A'' \<mapsto> Some (0, 0)],
       emitted :=
         [(''A'', LocationUpdate ''r1'' ''R'' (Some (0, 0)) 0 0 2 2),
          (fleet_manager, LiveLocationUpdate ''A'' ''r1'' ''R'' (Some (0, 0)) 0)]\<rparr>"
  by (simp add: tick_def fire_def start_tick_def settle_now_def settle_def spawn_def Let_def
      demo_started_fields demo_navigation_def array_get_def start_tick_publish_def
      fleet_findOneAndUpdate_def emit_def progress_percent_def)

lemma demo_arrived_fields:
  "activeNavigations demo_arrived = [''A'' \<mapsto> 0]"
  "heap demo_arrived 0 = demo_navigation\<lparr>currentPosition := Some (0, 1), currentIndex := 2\<rparr>"
  "timers demo_arrived = [0 \<mapsto> StartTick ''A'' ''r1'' 0]"
  "routes demo_arrived =
     [''r1'' \<mapsto> demo_route\<lparr>route_status := Alive, route_isActive := True\<rparr>]"
  "fleet demo_arrived = [''A'' \<mapsto> Some (0, 1)]"
  "emitted demo_arrived =
     [(''A'', LocationUpdate ''r1'' ''R'' (Some (0, 0)) 0 0 2 2),
      (fleet_manager, LiveLocationUpdate ''A'' ''r1'' ''R'' (Some (0, 0)) 0),
      (''A'', LocationUpdate ''r1'' ''R'' (Some (0, 1)) 50 1 2 1),
      (fleet_manager, LiveLocationUpdate ''A'' ''r1'' ''R'' (Some (0, 1)) 50)]"
  "pending demo_arrived = []"
  "exited demo_arrived = False"
  unfolding demo_arrived_def demo_first_tick
  by (simp_all add: tick_def fire_def start_tick_def settle_now_def settle_def spawn_def Let_def
      demo_started_fields demo_navigation_def array_get_def start_tick_publish_def
      fleet_findOneAndUpdate_def emit_def progress_percent_def eval_nat_numeral)

lemma demo_resumed_fields:
  "activeNavigations demo_resumed = [''A'' \<mapsto> 0]"
  "heap demo_resumed 0 = demo_navigation\<lparr>interval := Some 1\<rparr>"
  "timers demo_resumed = [1 \<mapsto> ResumeTick ''A'' 0]"
  "fleet demo_resumed = [''A'' \<mapsto> Some (5, 5)]"
  "emitted demo_resumed = []"
  "pending demo_resumed = []"
  "exited demo_resumed = False"
  by (simp_all add: demo_resumed_def pauseNavigation_def resumeNavigation_def Let_def
      demo_started_fields demo_navigation_def clearInterval_def setInterval_def fun_upd_twist)

text \<open>
  Claim C3 does not hold of the code. Vehicle \<open>A\<close> has a fleet document at \<open>[5,5]\<close> and
  a freshly started session whose first movement point is \<open>[0,0]\<close>. The first tick of
  the timer installed by \<^verbatim>\<open>/startNavigation\<close> writes \<open>[0,0]\<close> into the fleet
  document. After a pause and a resume, the first tick of the timer installed by
  \<^verbatim>\<open>/resumeNavigation\<close> publishes the same two events and moves the session in the
  same way, but the fleet document still holds \<open>[5,5]\<close>.
\<close>

theorem resume_tick_leaves_fleet_position:
  "fleet (tick 0 Succeeds demo_started) ''A'' = Some (Some (0, 0)) \<and>
   fleet (tick 1 Succeeds demo_resumed) ''A'' = Some (Some (5, 5)) \<and>
   emitted (tick 1 Succeeds demo_resumed) = emitted (tick 0 Succeeds demo_started) \<and>
   currentIndex (heap (tick 1 Succeeds demo_resumed) 0) = 1 \<and>
   currentIndex (heap (tick 0 Succeeds demo_started) 0) = 1 \<and>
   currentPosition (heap (tick 1 Succeeds demo_resumed) 0) = Some (0, 0) \<and>
   currentPosition (heap (tick 0 Succeeds demo_started) 0) = Some (0, 0)"
  unfolding demo_first_tick
  by (simp add: tick_def fire_def resume_tick_def settle_now_def spawn_def Let_def
      demo_started_fields demo_resumed_fields demo_navigation_def array_get_def emit_def
      progress_percent_def)

subsection \<open>Starting a navigation\<close>

text \<open>
  Two \<^verbatim>\<open>/startNavigation\<close> requests for one vehicle that overlap: both pass the
  conflict check before either has stored its session. The table ends with one entry,
  the later navigation object, but the timer of the earlier one is live as well.
\<close>

lemma overlapping_starts_leave_two_timers:
  "activeNavigations
     (run [StartRequest ''A'' ''r1'', StartRequest ''A'' ''r1'',
           Settles 0 Succeeds, Settles 0 Succeeds, Settles 0 Succeeds, Settles 0 Succeeds]
        demo_boot) = [''A'' \<mapsto> 1] \<and>
   timers
     (run [StartRequest ''A'' ''r1'', StartRequest ''A'' ''r1'',
           Settles 0 Succeeds, Settles 0 Succeeds, Settles 0 Succeeds, Settles 0 Succeeds]
        demo_boot) = [0 \<mapsto> StartTick ''A'' ''r1'' 0, 1 \<mapsto> StartTick ''A'' ''r1'' 1]"
  by (simp add: step_def spawn_def startNavigation_def settle_def
      demo_boot_def demo_route_def demo_plan route_findByIdAndUpdate_def setInterval_def
      array_get_def Let_def)



subsection \<open>Ticks that overlap\<close>

text \<open>
  Run without interruption, a tick of the start callback for a session below the end
  of its movement points publishes the two events of the point at \<open>currentIndex\<close> and
  moves to the next index, whatever the database calls do.
\<close>

lemma tick_alone_moves:
  assumes "timers s iid = Some (StartTick uid rid r)"
    and "currentIndex (heap s r) < length (movementPoints (heap s r))"
  shows "emitted (tick iid store s) =
      emitted s @
        [(uid, LocationUpdate rid (routeName (heap s r))
                 (movementPoints (heap s r) ! currentIndex (heap s r))
                 (progress_percent (heap s r)) (currentIndex (heap s r))
                 (length (movementPoints (heap s r)))
                 (int (length (movementPoints (heap s r))) - int (currentIndex (heap s r)))),
         (fleet_manager, LiveLocationUpdate uid rid (routeName (heap s r))
                 (movementPoints (heap s r) ! currentIndex (heap s r))
                 (progress_percent (heap s r)))]"
    and "heap (tick iid store s) = (heap s)(r := heap s r
            \<lparr>currentPosition := movementPoints (heap s r) ! currentIndex (heap s r),
             currentIndex := Suc (currentIndex (heap s r))\<rparr>)"
    and "pending (tick iid store s) = pending s"
  using assms
  by (cases store; cases "fleet s uid";
      simp add: tick_def fire_def start_tick_def settle_now_def settle_def spawn_def Let_def
        array_get_def start_tick_publish_def fleet_findOneAndUpdate_def emit_def
        progress_percent_def)+

text \<open>
  Claim C2 does not hold of the code. The start callback reads
  \<open>movementPoints[currentIndex]\<close> before it waits for \<open>Fleet.findOneAndUpdate\<close> and
  publishes and increments after it. When the database answers more slowly than the
  timer fires, ticks overlap. Here the timer of the freshly started two-point session
  fires four times before the first answer arrives: the first point is published
  four times, under the indices 0, 1, 2 and 3 and with progress 0, 50, 100 and 150,
  the second point is never published, and \<open>currentIndex\<close> ends at 4, beyond the two
  movement points.
\<close>

theorem overlapping_ticks_run_past_the_end:
  "emitted (run [TimerFires 0, TimerFires 0, TimerFires 0, TimerFires 0,
                 Settles 0 Succeeds, Settles 0 Succeeds, Settles 0 Succeeds, Settles 0 Succeeds]
              demo_started) =
     [(''A'', LocationUpdate ''r1'' ''R'' (Some (0, 0)) 0 0 2 2),
      (fleet_manager, LiveLocationUpdate ''A'' ''r1'' ''R'' (Some (0, 0)) 0),
      (''A'', LocationUpdate ''r1'' ''R'' (Some (0, 0)) 50 1 2 1),
      (fleet_manager, LiveLocationUpdate ''A'' ''r1'' ''R'' (Some (0, 0)) 50),
      (''A'', LocationUpdate ''r1'' ''R'' (Some (0, 0)) 100 2 2 0),
      (fleet_manager, LiveLocationUpdate ''A'' ''r1'' ''R'' (Some (0, 0)) 100),
      (''A'', LocationUpdate ''r1'' ''R'' (Some (0, 0)) 150 3 2 (- 1)),
      (fleet_manager, LiveLocationUpdate ''A'' ''r1'' ''R'' (Some (0, 0)) 150)] \<and>
   currentIndex (heap (run [TimerFires 0, TimerFires 0, TimerFires 0, TimerFires 0,
                 Settles 0 Succeeds, Settles 0 Succeeds, Settles 0 Succeeds, Settles 0 Succeeds]
              demo_started) 0) = 4 \<and>
   length (movementPoints (heap (run [TimerFires 0, TimerFires 0, TimerFires 0, TimerFires 0,
                 Settles 0 Succeeds, Settles 0 Succeeds, Settles 0 Succeeds, Settles 0 Succeeds]
              demo_started) 0)) = 2"
  by (simp add: step_def spawn_def fire_def start_tick_def settle_def Let_def
      demo_started_fields demo_navigation_def array_get_def start_tick_publish_def
      fleet_findOneAndUpdate_def emit_def progress_percent_def)

text \<open>
  When the route update of the completion branch returns, the arrived demo session
  ends as intended: timer cleared, session deleted, route marked dead and inactive,
  and the two completion events published once.
\<close>

lemma completion_when_update_returns:
  "activeNavigations (run [TimerFires 0, Settles 0 Succeeds] demo_arrived) ''A'' = None \<and>
   timers (run [TimerFires 0, Settles 0 Succeeds] demo_arrived) 0 = None \<and>
   routes (run [TimerFires 0, Settles 0 Succeeds] demo_arrived) ''r1'' =
     Some (demo_route\<lparr>route_status := Dead, route_isActive := False\<rparr>) \<and>
   emitted (run [TimerFires 0, Settles 0 Succeeds] demo_arrived) =
     emitted demo_arrived @
       [(''A'', NavigationCompleted ''r1'' ''R''),
        (fleet_manager, RouteCompleted ''A'' ''r1'' ''R'')] \<and>
   exited (run [TimerFires 0, Settles 0 Succeeds] demo_arrived) = False"
  by (simp add: step_def spawn_def fire_def start_tick_def settle_def Let_def
      demo_arrived_fields demo_navigation_def clearInterval_def route_findByIdAndUpdate_def
      emit_def demo_route_def)

text \<open>
  Claim C4 does not hold of the code. In the completion branch the callback clears
  the timer and deletes the session, and then waits for \<open>Route.findByIdAndUpdate\<close>
  outside any \<open>try\<close>. When that update is rejected, the rejection is unhandled and
  ends the process: the session of the arrived vehicle is gone and its timer
  cleared, but the route is still marked alive and active, and neither
  \<^verbatim>\<open>navigation-completed\<close> nor \<^verbatim>\<open>route-completed\<close> is published.
\<close>

theorem rejected_completion_leaves_route_alive:
  "activeNavigations (run [TimerFires 0, Settles 0 Throws] demo_arrived) ''A'' = None \<and>
   timers (run [TimerFires 0, Settles 0 Throws] demo_arrived) 0 = None \<and>
   routes (run [TimerFires 0, Settles 0 Throws] demo_arrived) ''r1'' =
     Some (demo_route\<lparr>route_status := Alive, route_isActive := True\<rparr>) \<and>
   emitted (run [TimerFires 0, Settles 0 Throws] demo_arrived) = emitted demo_arrived \<and>
   exited (run [TimerFires 0, Settles 0 Throws] demo_arrived) = True \<and>
   currentIndex (heap demo_arrived 0) = length (movementPoints (heap demo_arrived 0))"
  by (simp add: step_def spawn_def fire_def start_tick_def settle_def Let_def
      demo_arrived_fields demo_navigation_def clearInterval_def)

text \<open>
  The two handlers by themselves, in every state: \<^verbatim>\<open>/pauseNavigation\<close> leaves
  \<open>currentIndex\<close> and \<open>currentPosition\<close> of the session as they are, a second pause
  changes nothing and answers with success, and \<^verbatim>\<open>/resumeNavigation\<close> on a session
  that is not paused changes nothing and answers with success.
\<close>

lemma pause_resume_handlers:
  assumes "activeNavigations s uid = Some r"
  shows "currentIndex (heap (fst (pauseNavigation uid s)) r) = currentIndex (heap s r)"
    and "currentPosition (heap (fst (pauseNavigation uid s)) r) = currentPosition (heap s r)"
    and "pauseNavigation uid (fst (pauseNavigation uid s)) =
      (fst (pauseNavigation uid s),
       NavigationPausedOk (routeId (heap s r)) (routeName (heap s r)))"
    and "status (heap s r) \<noteq> Paused \<Longrightarrow>
      resumeNavigation uid s =
        (s, NavigationResumedOk (routeId (heap s r)) (routeName (heap s r)))"
  using assms
  by (cases "interval (heap s r)";
      simp add: pauseNavigation_def resumeNavigation_def clearInterval_def Let_def)+

text \<open>
  Claim C5 does not hold of the code. \<^verbatim>\<open>/pauseNavigation\<close> clears the timer, but a
  tick of the start callback that is waiting for \<open>Fleet.findOneAndUpdate\<close> goes on
  when the database answers. Here two ticks are in flight when the pause is
  answered: \<open>currentIndex\<close> is 0 at that moment and 2 once they have finished,
  with the session still paused and the first point published twice. The resumed
  timer then starts at the completion branch, so the second point is never
  published.
\<close>

theorem ticks_in_flight_move_a_paused_session:
  "currentIndex (heap (run [TimerFires 0, TimerFires 0, PauseRequest ''A''] demo_started) 0) = 0 \<and>
   status (heap (run [TimerFires 0, TimerFires 0, PauseRequest ''A''] demo_started) 0) = Paused \<and>
   timers (run [TimerFires 0, TimerFires 0, PauseRequest ''A''] demo_started) = Map.empty \<and>
   emitted (run [TimerFires 0, TimerFires 0, PauseRequest ''A''] demo_started) =
     [] \<and>
   currentIndex (heap (run [TimerFires 0, TimerFires 0, PauseRequest ''A'',
                            Settles 0 Succeeds, Settles 0 Succeeds] demo_started) 0) = 2 \<and>
   status (heap (run [TimerFires 0, TimerFires 0, PauseRequest ''A'',
                      Settles 0 Succeeds, Settles 0 Succeeds] demo_started) 0) = Paused \<and>
   emitted (run [TimerFires 0, TimerFires 0, PauseRequest ''A'',
                 Settles 0 Succeeds, Settles 0 Succeeds,
                 ResumeRequest ''A'', TimerFires 1, Settles 0 Succeeds] demo_started) =
     [(''A'', LocationUpdate ''r1'' ''R'' (Some (0, 0)) 0 0 2 2),
      (fleet_manager, LiveLocationUpdate ''A'' ''r1'' ''R'' (Some (0, 0)) 0),
      (''A'', LocationUpdate ''r1'' ''R'' (Some (0, 0)) 50 1 2 1),
      (fleet_manager, LiveLocationUpdate ''A'' ''r1'' ''R'' (Some (0, 0)) 50),
      (''A'', NavigationCompleted ''r1'' ''R''),
      (fleet_manager, RouteCompleted ''A'' ''r1'' ''R'')]"
  by (simp add: step_def spawn_def fire_def start_tick_def resume_tick_def settle_def Let_def
      demo_started_fields demo_navigation_def array_get_def start_tick_publish_def
      fleet_findOneAndUpdate_def emit_def progress_percent_def pauseNavigation_def
      resumeNavigation_def clearInterval_def setInterval_def route_findByIdAndUpdate_def
      demo_route_def)

subsection \<open>Disconnecting\<close>

text \<open>
  The handler tests \<open>socket.userId\<close> for truthiness: a socket that joined with the
  empty string leaves every state as it is.
\<close>

lemma disconnect_empty_user:
  "disconnect (join_user [] sock) s = s"
  by (simp add: disconnect_def join_user_def)




end
